theory Spec2Isabelle
  imports Complex_Main "HOL-Library.AList"
begin

section \<open>Events and rounds of LearningAbciApp\<close>

text \<open>
  \<^verbatim>\<open>rounds.py\<close>: the enumeration \<^verbatim>\<open>Event\<close> and the value of each member, the
  string that a behaviour puts into a payload.
\<close>

datatype Event = DONE | ERROR | TRANSACT | NO_MAJORITY | ROUND_TIMEOUT | COINGECKO | COINMARKETCAP

fun Event_value :: "Event \<Rightarrow> string" where
  "Event_value DONE = ''done''"
| "Event_value ERROR = ''error''"
| "Event_value TRANSACT = ''transact''"
| "Event_value NO_MAJORITY = ''no_majority''"
| "Event_value ROUND_TIMEOUT = ''round_timeout''"
| "Event_value COINGECKO = ''coingecko''"
| "Event_value COINMARKETCAP = ''coinmarketcap''"

text \<open>The round classes of \<^verbatim>\<open>rounds.py\<close>, as the states of the application.\<close>

datatype Round =
    ApiSelectionRound
  | AlternativeDataPullRound
  | DataPullRound
  | DecisionMakingRound
  | TxPreparationRound
  | FinishedDecisionMakingRound
  | FinishedTxPreparationRound

text \<open>
  \<^verbatim>\<open>LearningAbciApp.transition_function\<close>: a dictionary from rounds to dictionaries
  from events to rounds. Each inner dictionary is the association list of its entries, in
  the order of the source; a key that is absent has no entry.
\<close>

fun transition_function :: "Round \<Rightarrow> (Event \<times> Round) list" where
  "transition_function ApiSelectionRound =
     [(NO_MAJORITY, ApiSelectionRound),
      (ROUND_TIMEOUT, ApiSelectionRound),
      (COINGECKO, DataPullRound),
      (COINMARKETCAP, AlternativeDataPullRound)]"
| "transition_function DataPullRound =
     [(NO_MAJORITY, DataPullRound),
      (ROUND_TIMEOUT, DataPullRound),
      (DONE, DecisionMakingRound)]"
| "transition_function AlternativeDataPullRound =
     [(NO_MAJORITY, AlternativeDataPullRound),
      (ROUND_TIMEOUT, AlternativeDataPullRound),
      (DONE, DecisionMakingRound)]"
| "transition_function DecisionMakingRound =
     [(NO_MAJORITY, DecisionMakingRound),
      (ROUND_TIMEOUT, DecisionMakingRound),
      (DONE, FinishedDecisionMakingRound),
      (ERROR, FinishedDecisionMakingRound),
      (TRANSACT, TxPreparationRound)]"
| "transition_function TxPreparationRound =
     [(NO_MAJORITY, TxPreparationRound),
      (ROUND_TIMEOUT, TxPreparationRound),
      (DONE, FinishedTxPreparationRound)]"
| "transition_function FinishedDecisionMakingRound = []"
| "transition_function FinishedTxPreparationRound = []"

text \<open>The lookup that the engine performs: the next round, if the pair has an entry.\<close>

definition next_round :: "Round \<Rightarrow> Event \<Rightarrow> Round option" where
  "next_round r e = map_of (transition_function r) e"

text \<open>
  The table of the specification, section 4.3, written from its rows and columns and not
  from the code. A column \<^verbatim>\<open>self\<close> is the round of the row, a dash is no entry, and
  the column \<^verbatim>\<open>other\<close> lists every further entry of the row. The two finished rounds
  have no row: their entries are empty.
\<close>

fun spec_table_DONE :: "Round \<Rightarrow> Round option" where
  "spec_table_DONE ApiSelectionRound = None"
| "spec_table_DONE DataPullRound = Some DecisionMakingRound"
| "spec_table_DONE AlternativeDataPullRound = Some DecisionMakingRound"
| "spec_table_DONE DecisionMakingRound = Some FinishedDecisionMakingRound"
| "spec_table_DONE TxPreparationRound = Some FinishedTxPreparationRound"
| "spec_table_DONE FinishedDecisionMakingRound = None"
| "spec_table_DONE FinishedTxPreparationRound = None"

fun spec_table_self :: "Round \<Rightarrow> Round option" where
  "spec_table_self FinishedDecisionMakingRound = None"
| "spec_table_self FinishedTxPreparationRound = None"
| "spec_table_self r = Some r"

fun spec_table_other :: "Round \<Rightarrow> Event \<Rightarrow> Round option" where
  "spec_table_other ApiSelectionRound COINGECKO = Some DataPullRound"
| "spec_table_other ApiSelectionRound COINMARKETCAP = Some AlternativeDataPullRound"
| "spec_table_other DecisionMakingRound ERROR = Some FinishedDecisionMakingRound"
| "spec_table_other DecisionMakingRound TRANSACT = Some TxPreparationRound"
| "spec_table_other r e = None"

fun spec_transition_table :: "Round \<Rightarrow> Event \<Rightarrow> Round option" where
  "spec_transition_table r DONE = spec_table_DONE r"
| "spec_transition_table r NO_MAJORITY = spec_table_self r"
| "spec_transition_table r ROUND_TIMEOUT = spec_table_self r"
| "spec_transition_table r e = spec_table_other r e"


text \<open>
  The remaining declarations of \<^verbatim>\<open>LearningAbciApp\<close>: the initial round, the final
  states, and the keys that the data base must hold when a final state is reached
  (\<^verbatim>\<open>db_post_conditions\<close>, a dictionary with the two final rounds as its keys).
\<close>

definition initial_round_cls :: Round where
  "initial_round_cls = ApiSelectionRound"

definition final_states :: "Round set" where
  "final_states = {FinishedDecisionMakingRound, FinishedTxPreparationRound}"

fun db_post_conditions :: "Round \<Rightarrow> string set option" where
  "db_post_conditions FinishedDecisionMakingRound = Some {}"
| "db_post_conditions FinishedTxPreparationRound = Some {''most_voted_tx_hash''}"
| "db_post_conditions r = None"

section \<open>Python values, dictionaries and errors\<close>

text \<open>
  The values that the synchronized data and the payloads hold: \<^verbatim>\<open>None\<close>, a string, a
  number, and a serialized collection (sender and the payload's field values). Python's
  numbers are modelled by the reals: the arithmetic of the model is exact, the rounding of
  binary floating point is outside it.
\<close>

datatype pyval = PNone | PStr string | PNum real | PColl "(string \<times> pyval list) list"

datatype py_error = ValueError string | IndexError | ZeroDivisionError | TypeError

text \<open>
  A Python dictionary keeps its keys in the order of their first insertion: an association
  list with distinct keys. \<^verbatim>\<open>d[k] = v\<close> replaces the value of a key that is
  present, in place, and appends a new key; \<^verbatim>\<open>d.get(k, default)\<close> reads.
\<close>

definition dict_set :: "('k \<times> 'v) list \<Rightarrow> 'k \<Rightarrow> 'v \<Rightarrow> ('k \<times> 'v) list" where
  "dict_set d k v = AList.update k v d"

definition dict_get :: "('k \<times> 'v) list \<Rightarrow> 'k \<Rightarrow> 'v \<Rightarrow> 'v" where
  "dict_get d k dflt = (case map_of d k of None \<Rightarrow> dflt | Some v \<Rightarrow> v)"

text \<open>\<^verbatim>\<open>list.index(x)\<close>: the first position of \<^verbatim>\<open>x\<close>; no position is a ValueError.\<close>

fun list_index :: "'a list \<Rightarrow> 'a \<Rightarrow> nat option" where
  "list_index [] x = None"
| "list_index (y # ys) x = (if y = x then Some 0 else map_option Suc (list_index ys x))"

section \<open>The synchronized data\<close>

text \<open>
  \<^verbatim>\<open>SynchronizedData\<close> wraps the replicated data base, a map from keys to values.
  \<^verbatim>\<open>db.get(key, default)\<close> gives the default for a key that is absent, and
  \<^verbatim>\<open>update(**kwargs)\<close> gives the data with the keyword arguments written, one after
  the other.
\<close>

type_synonym SynchronizedData = "string \<rightharpoonup> pyval"

definition db_get :: "SynchronizedData \<Rightarrow> string \<Rightarrow> pyval \<Rightarrow> pyval" where
  "db_get db key dflt = (case db key of None \<Rightarrow> dflt | Some v \<Rightarrow> v)"

definition SynchronizedData_update :: "SynchronizedData \<Rightarrow> (string \<times> pyval) list \<Rightarrow> SynchronizedData" where
  "SynchronizedData_update db kwargs = fold (\<lambda>(key, v) m. m(key \<mapsto> v)) kwargs db"

definition token_values :: "SynchronizedData \<Rightarrow> pyval" where
  "token_values db = db_get db ''token_values'' PNone"

definition total_portfolio_value :: "SynchronizedData \<Rightarrow> pyval" where
  "total_portfolio_value db = db_get db ''total_portfolio_value'' PNone"

definition adjustment_balances :: "SynchronizedData \<Rightarrow> pyval" where
  "adjustment_balances db = db_get db ''adjustment_balances'' PNone"

definition api_selection :: "SynchronizedData \<Rightarrow> pyval" where
  "api_selection db = db_get db ''api_selection'' (PStr ''coingecko'')"

definition most_voted_tx_hash :: "SynchronizedData \<Rightarrow> pyval" where
  "most_voted_tx_hash db = db_get db ''most_voted_tx_hash'' PNone"

section \<open>Rounds\<close>

text \<open>
  What a round sees when a block ends. The synchronized data and the collection (sender
  and payload, in the order of arrival) are the round's own. The threshold collector is
  the framework's (\<^verbatim>\<open>CollectSameUntilThresholdRound\<close>, whose code is outside the
  source tree): what it reports to the round is an input here, one field for each of the
  properties that the rounds read: whether the threshold is reached, the most voted
  payload, the field values of the winning payload in the order of the payload class, and
  whether a majority is still possible.
\<close>

record 'p round_state =
  synchronized_data :: SynchronizedData
  collection :: "(string \<times> 'p) list"
  threshold_reached :: bool
  most_voted_payload :: pyval
  most_voted_payload_values :: "pyval list"
  is_majority_possible :: bool

text \<open>The payloads that the behaviours build, by the keyword arguments of their constructors.\<close>

record ApiSelectionPayload =
  api_sender :: string
  payload_api_selection :: string

record DecisionMakingPayload =
  decision_sender :: string
  payload_event :: string
  payload_adjustment_balances :: "string option"

text \<open>\<^verbatim>\<open>ApiSelectionRound.end_block\<close>.\<close>

definition ApiSelectionRound_end_block ::
    "ApiSelectionPayload round_state \<Rightarrow> (SynchronizedData \<times> Event) option" where
  "ApiSelectionRound_end_block self =
     (if threshold_reached self then
        (if api_selection (synchronized_data self) \<noteq> most_voted_payload self then
           Some (SynchronizedData_update (synchronized_data self)
                   [(''api_selection'', most_voted_payload self)], COINMARKETCAP)
         else Some (synchronized_data self, COINGECKO))
      else None)"

text \<open>
  \<^verbatim>\<open>DecisionMakingRound.end_block\<close>. The loop over the values of the collection
  stops at the first payload whose event is the most voted payload.
\<close>

fun find_most_voted_payload_data ::
    "pyval \<Rightarrow> DecisionMakingPayload list \<Rightarrow> DecisionMakingPayload option" where
  "find_most_voted_payload_data mvp [] = None"
| "find_most_voted_payload_data mvp (payload # payloads) =
     (if PStr (payload_event payload) = mvp then Some payload
      else find_most_voted_payload_data mvp payloads)"

definition DecisionMakingRound_end_block ::
    "DecisionMakingPayload round_state \<Rightarrow> (SynchronizedData \<times> Event) option" where
  "DecisionMakingRound_end_block self =
     (if threshold_reached self then
        (case find_most_voted_payload_data (most_voted_payload self) (map snd (collection self)) of
           None \<Rightarrow> Some (synchronized_data self, ERROR)
         | Some most_voted_payload_data \<Rightarrow>
             (case payload_adjustment_balances most_voted_payload_data of
                Some ab \<Rightarrow>
                  Some (SynchronizedData_update (synchronized_data self)
                          [(''adjustment_balances'', PStr ab)], TRANSACT)
              | None \<Rightarrow> Some (synchronized_data self, DONE)))
      else if \<not> is_majority_possible self then Some (synchronized_data self, NO_MAJORITY)
      else None)"

text \<open>
  The class attributes of a round that inherits its \<^verbatim>\<open>end_block\<close>: the payload class,
  the collection key, the selection keys and the two events. \<^verbatim>\<open>get_name\<close> of a
  property is the property's name.
\<close>

record round_attrs =
  payload_class :: string
  collection_key :: string
  selection_key :: "string list"
  done_event :: Event
  no_majority_event :: Event

definition AlternativeDataPullRound_attrs :: round_attrs where
  "AlternativeDataPullRound_attrs =
     \<lparr>payload_class = ''AlternativeDataPullPayload'',
      collection_key = ''participant_to_data_round'',
      selection_key = [''token_values'', ''total_portfolio_value''],
      done_event = DONE,
      no_majority_event = NO_MAJORITY\<rparr>"

definition DataPullRound_attrs :: round_attrs where
  "DataPullRound_attrs =
     \<lparr>payload_class = ''DataPullPayload'',
      collection_key = ''participant_to_data_round'',
      selection_key = [''token_values'', ''total_portfolio_value''],
      done_event = DONE,
      no_majority_event = NO_MAJORITY\<rparr>"

definition TxPreparationRound_attrs :: round_attrs where
  "TxPreparationRound_attrs =
     \<lparr>payload_class = ''TxPreparationPayload'',
      collection_key = ''participant_to_tx_round'',
      selection_key = [''tx_submitter'', ''most_voted_tx_hash''],
      done_event = DONE,
      no_majority_event = NO_MAJORITY\<rparr>"

text \<open>
  Modelled from the spec: the \<^verbatim>\<open>end_block\<close> that \<^verbatim>\<open>DataPullRound\<close>,
  \<^verbatim>\<open>AlternativeDataPullRound\<close> and \<^verbatim>\<open>TxPreparationRound\<close> inherit from the
  framework's \<^verbatim>\<open>CollectSameUntilThresholdRound\<close>, which is not in the source tree.
  Sections 3 and 4.2 of the specification: no result while no quorum exists and a majority
  is still possible; the no-majority event once a majority is impossible, with the data as
  they are (there is no winning payload to project, and the \<^verbatim>\<open>end_block\<close> of the
  decision round does the same); on quorum the done event, with the prior data extended by
  the raw collection under the collection key and by the values of the winning payload
  under the selection keys, in their order.
\<close>

definition CollectSameUntilThresholdRound_end_block ::
    "round_attrs \<Rightarrow> (pyval list) round_state \<Rightarrow> (SynchronizedData \<times> Event) option" where
  "CollectSameUntilThresholdRound_end_block attrs self =
     (if threshold_reached self then
        Some (SynchronizedData_update (synchronized_data self)
                ((collection_key attrs, PColl (collection self))
                 # zip (selection_key attrs) (most_voted_payload_values self)),
              done_event attrs)
      else if \<not> is_majority_possible self then
        Some (synchronized_data self, no_majority_event attrs)
      else None)"


section \<open>Parameters\<close>

text \<open>
  \<^verbatim>\<open>models.py\<close>: the fields of \<^verbatim>\<open>Params\<close> that the rounds and behaviours read.
  \<^verbatim>\<open>validate_params\<close> raises a ValueError or returns; it assigns nothing, so the
  parameters after the call are the parameters before it, and the model returns them.
\<close>

record Params =
  api_selection_string :: string
  tokens_to_rebalance :: "string list"
  target_percentages :: "real list"
  variation_threshold :: real

definition validate_params :: "Params \<Rightarrow> py_error + Params" where
  "validate_params self =
     (if length (tokens_to_rebalance self) \<noteq> length (target_percentages self) then
        Inl (ValueError ''The number of tokens must match the number of target percentages.'')
      else if sum_list (target_percentages self) \<noteq> 100 then
        Inl (ValueError ''Target percentages must sum to 100.'')
      else if \<not> (0 \<le> variation_threshold self \<and> variation_threshold self \<le> 100) then
        Inl (ValueError ''Variation threshold must be between 0 and 100.'')
      else Inr self)"

section \<open>Behaviours\<close>

text \<open>
  \<^verbatim>\<open>ApiSelectionBehaviour.async_act\<close>: the payload that the agent submits. Sending
  it and waiting for the end of the round belong to the framework.
\<close>

definition ApiSelectionBehaviour_async_act :: "string \<Rightarrow> Params \<Rightarrow> ApiSelectionPayload" where
  "ApiSelectionBehaviour_async_act sender params =
     (let selection = api_selection_string params;
          chosen = (if selection = ''coinmarketcap'' then selection else ''coingecko'')
      in \<lparr>api_sender = sender, payload_api_selection = chosen\<rparr>)"

text \<open>
  \<^verbatim>\<open>DataPullBehaviour\<close>. The collaborators are parameters: \<^verbatim>\<open>feed\<close> is the
  price feed (for a CoinGecko identifier, the \<^verbatim>\<open>usd\<close> entry of the processed
  response, if there is one), \<^verbatim>\<open>read_balance\<close> is the contract call for a token (no
  value when the response is not a raw transaction or has no balance). Within one call of
  a method each collaborator is read as a function of its argument.
\<close>

definition get_token_price_specs :: "(string \<Rightarrow> real option) \<Rightarrow> string \<Rightarrow> real option" where
  "get_token_price_specs feed symbol =
     (if symbol = ''ETH'' then feed ''ethereum''
      else if symbol = ''USDC'' then feed ''usd-coin''
      else None)"

definition get_token_balances ::
    "(string \<Rightarrow> real option) \<Rightarrow> Params \<Rightarrow> (string \<times> real option) list option" where
  "get_token_balances read_balance params =
     (let balances =
            fold (\<lambda>token_symbol balances. dict_set balances token_symbol (read_balance token_symbol))
              (tokens_to_rebalance params) []
      in if balances \<noteq> [] then Some balances else None)"

text \<open>
  \<^verbatim>\<open>generate_and_store_report\<close>: one entry for each token of the token values. The
  entries go to the content store and nowhere else; what the caller can observe is whether
  the method raises. The lookup of the target percentage raises when the token is not a
  token to rebalance (ValueError) or has no percentage (IndexError).
\<close>

record report_token =
  report_token_name :: string
  current_number_of_tokens :: real
  current_usd_value :: real
  current_percentage_in_portfolio :: real
  target_percentage :: real
  usd_deviation_from_target :: real

fun report_tokens ::
    "Params \<Rightarrow> (string \<Rightarrow> real option) \<Rightarrow> real \<Rightarrow> (string \<times> real) list \<Rightarrow> py_error + report_token list" where
  "report_tokens params price total_value [] = Inr []"
| "report_tokens params price total_value ((token, usd_value) # items) =
     (case list_index (tokens_to_rebalance params) token of
        None \<Rightarrow> Inl (ValueError ''is not in list'')
      | Some i \<Rightarrow>
          if \<not> i < length (target_percentages params) then Inl IndexError
          else if total_value = 0 then Inl ZeroDivisionError
          else
            (let target = target_percentages params ! i;
                 current = (usd_value / total_value) * 100;
                 amount = (case price token of
                             None \<Rightarrow> 0
                           | Some token_price \<Rightarrow> if token_price \<noteq> 0 then usd_value / token_price else 0);
                 entry = \<lparr>report_token_name = token,
                          current_number_of_tokens = amount,
                          current_usd_value = usd_value,
                          current_percentage_in_portfolio = current,
                          target_percentage = target,
                          usd_deviation_from_target = current - target\<rparr>
             in (case report_tokens params price total_value items of
                   Inl e \<Rightarrow> Inl e
                 | Inr entries \<Rightarrow> Inr (entry # entries))))"

definition generate_and_store_report ::
    "(report_token list \<Rightarrow> string option) \<Rightarrow> Params \<Rightarrow> (string \<Rightarrow> real option) \<Rightarrow>
     (string \<times> real) list \<Rightarrow> real \<Rightarrow> py_error + string option" where
  "generate_and_store_report send_to_ipfs params price tvs total_value =
     (case report_tokens params price total_value tvs of
        Inl e \<Rightarrow> Inl e
      | Inr entries \<Rightarrow> Inr (send_to_ipfs entries))"

text \<open>
  \<^verbatim>\<open>DataPullBehaviour.calculate_portfolio_allocation\<close>. The loop over the items of
  the balances skips a token whose balance is \<^verbatim>\<open>None\<close> and a token whose price is
  \<^verbatim>\<open>None\<close>; every other token gets its value, and the value is added to the total.
  The method returns \<^verbatim>\<open>None\<close> when there are no balances or the total is zero.
\<close>

fun allocation_loop ::
    "(string \<Rightarrow> real option) \<Rightarrow> (string \<times> real option) list \<Rightarrow> (string \<times> real) list \<Rightarrow> real \<Rightarrow>
     (string \<times> real) list \<times> real" where
  "allocation_loop price [] tvs total_value = (tvs, total_value)"
| "allocation_loop price ((token_symbol, balance) # items) tvs total_value =
     (case balance of
        None \<Rightarrow> allocation_loop price items tvs total_value
      | Some b \<Rightarrow>
          (case price token_symbol of
             None \<Rightarrow> allocation_loop price items tvs total_value
           | Some p \<Rightarrow>
               (let token_value = b * p
                in allocation_loop price items (dict_set tvs token_symbol token_value)
                     (total_value + token_value))))"

definition calculate_portfolio_allocation ::
    "(report_token list \<Rightarrow> string option) \<Rightarrow> (string \<Rightarrow> real option) \<Rightarrow> (string \<Rightarrow> real option) \<Rightarrow>
     Params \<Rightarrow> py_error + ((string \<times> real) list \<times> real) option" where
  "calculate_portfolio_allocation send_to_ipfs read_balance feed params =
     (case get_token_balances read_balance params of
        None \<Rightarrow> Inr None
      | Some token_balances \<Rightarrow>
          (case allocation_loop (get_token_price_specs feed) token_balances [] 0 of
             (tvs, total_value) \<Rightarrow>
               if total_value = 0 then Inr None
               else
                 (case generate_and_store_report send_to_ipfs params
                         (get_token_price_specs feed) tvs total_value of
                    Inl e \<Rightarrow> Inl e
                  | Inr report_ipfs_hash \<Rightarrow> Inr (Some (tvs, total_value)))))"

text \<open>
  \<^verbatim>\<open>DecisionMakingBehaviour.calculate_rebalancing_actions\<close>. Here \<^verbatim>\<open>price\<close> is
  the behaviour's own \<^verbatim>\<open>get_token_price_specs\<close> (the CoinMarketCap quote of a symbol,
  if the response has one), and \<^verbatim>\<open>json_loads\<close> is the library's parser (no value
  for a JSONDecodeError). The loop goes over the enumerated tokens: it reads the target
  percentage at the token's index (IndexError beyond the list), skips a token without a
  price, and divides by the price and by the target value (ZeroDivisionError at zero).
\<close>

fun rebalancing_loop ::
    "(string \<Rightarrow> real option) \<Rightarrow> (string \<times> real) list \<Rightarrow> real \<Rightarrow> real list \<Rightarrow> real \<Rightarrow>
     (nat \<times> string) list \<Rightarrow> (string \<times> real) list \<Rightarrow> py_error + (string \<times> real) list" where
  "rebalancing_loop price tvs total_value targets threshold [] new_token_amounts = Inr new_token_amounts"
| "rebalancing_loop price tvs total_value targets threshold ((i, token) # items) new_token_amounts =
     (let current_value = dict_get tvs token 0 in
      if \<not> i < length targets then Inl IndexError
      else
        (let target_pct = targets ! i in
         case price token of
           None \<Rightarrow> rebalancing_loop price tvs total_value targets threshold items new_token_amounts
         | Some token_price \<Rightarrow>
             if token_price = 0 then Inl ZeroDivisionError
             else if total_value = 0 then Inl ZeroDivisionError
             else
               (let current_token_amount = current_value / token_price;
                    current_percentage = (current_value / total_value) * 100;
                    target_value = (target_pct / 100) * total_value;
                    target_token_amount = target_value / token_price
                in if target_value = 0 then Inl ZeroDivisionError
                   else
                     (let deviation = (current_value - target_value) / target_value * 100
                      in if \<bar>deviation\<bar> > threshold then
                           rebalancing_loop price tvs total_value targets threshold items
                             (dict_set new_token_amounts token target_token_amount)
                         else
                           rebalancing_loop price tvs total_value targets threshold items
                             new_token_amounts))))"

text \<open>
  The first block of \<^verbatim>\<open>calculate_rebalancing_actions\<close>: the dictionary of the token
  values, parsed from the JSON string of the synchronized data. It is empty when the data
  hold no string and when the string does not parse; \<^verbatim>\<open>json.loads\<close> raises a
  TypeError for a value that is neither.
\<close>

definition loaded_token_values ::
    "(string \<Rightarrow> (string \<times> real) list option) \<Rightarrow> SynchronizedData \<Rightarrow> py_error + (string \<times> real) list" where
  "loaded_token_values json_loads db =
     (case token_values db of
        PNone \<Rightarrow> Inr []
      | PStr token_values_json \<Rightarrow>
          (case json_loads token_values_json of None \<Rightarrow> Inr [] | Some d \<Rightarrow> Inr d)
      | PNum x \<Rightarrow> Inl TypeError
      | PColl c \<Rightarrow> Inl TypeError)"

text \<open>
  The method itself: no result (\<^verbatim>\<open>None\<close>) when the total value is missing or not
  positive, the loop over the enumerated tokens otherwise. Comparing a total value that
  is no number with zero raises a TypeError.
\<close>

definition calculate_rebalancing_actions ::
    "(string \<Rightarrow> (string \<times> real) list option) \<Rightarrow> (string \<Rightarrow> real option) \<Rightarrow> SynchronizedData \<Rightarrow>
     Params \<Rightarrow> py_error + (string \<times> real) list option" where
  "calculate_rebalancing_actions json_loads price db params =
     (case loaded_token_values json_loads db of
        Inl e \<Rightarrow> Inl e
      | Inr tvs \<Rightarrow>
          (case total_portfolio_value db of
             PNone \<Rightarrow> Inr None
           | PNum total_value \<Rightarrow>
               if total_value \<le> 0 then Inr None
               else
                 (case rebalancing_loop price tvs total_value (target_percentages params)
                         (variation_threshold params)
                         (enumerate 0 (tokens_to_rebalance params)) [] of
                    Inl e \<Rightarrow> Inl e
                  | Inr new_token_amounts \<Rightarrow> Inr (Some new_token_amounts))
           | PStr s \<Rightarrow> Inl TypeError
           | PColl c \<Rightarrow> Inl TypeError))"

text \<open>
  \<^verbatim>\<open>DecisionMakingBehaviour.get_next_event\<close>: the value of the event and the
  serialized adjustments of the payload. \<^verbatim>\<open>json_dumps\<close> is the library's
  serializer; a dictionary is true when it is not empty.
\<close>

definition get_next_event ::
    "((string \<times> real) list \<Rightarrow> string) \<Rightarrow> (string \<Rightarrow> (string \<times> real) list option) \<Rightarrow>
     (string \<Rightarrow> real option) \<Rightarrow> SynchronizedData \<Rightarrow> Params \<Rightarrow> py_error + (string \<times> string option)" where
  "get_next_event json_dumps json_loads price db params =
     (case calculate_rebalancing_actions json_loads price db params of
        Inl e \<Rightarrow> Inl e
      | Inr rebalancing_actions \<Rightarrow>
          (case rebalancing_actions of
             None \<Rightarrow> Inr (Event_value DONE, None)
           | Some actions \<Rightarrow>
               Inr (Event_value TRANSACT,
                    if actions \<noteq> [] then Some (json_dumps actions) else None)))"

text \<open>
  \<^verbatim>\<open>DecisionMakingBehaviour.async_act\<close>: the payload built from the event and the
  adjustments.
\<close>

definition DecisionMakingBehaviour_async_act ::
    "((string \<times> real) list \<Rightarrow> string) \<Rightarrow> (string \<Rightarrow> (string \<times> real) list option) \<Rightarrow>
     (string \<Rightarrow> real option) \<Rightarrow> string \<Rightarrow> SynchronizedData \<Rightarrow> Params \<Rightarrow> py_error + DecisionMakingPayload" where
  "DecisionMakingBehaviour_async_act json_dumps json_loads price sender db params =
     (case get_next_event json_dumps json_loads price db params of
        Inl e \<Rightarrow> Inl e
      | Inr (event, adjustments) \<Rightarrow>
          Inr \<lparr>decision_sender = sender, payload_event = event,
               payload_adjustment_balances = adjustments\<rparr>)"

section \<open>The synchronized data over a run\<close>

text \<open>
  The synchronized data that a run of the application can hold, by the writes of its
  rounds. At the start no round has set \<^verbatim>\<open>api_selection\<close>. The API selection
  round ends a block with the most voted payload, which is the selection that
  \<^verbatim>\<open>ApiSelectionBehaviour\<close> submitted for some agent's parameters. The decision round
  ends a block by its own \<^verbatim>\<open>end_block\<close>. A round that inherits its
  \<^verbatim>\<open>end_block\<close> writes under its collection key and its selection keys, as the
  comments on those attributes say, whatever the values.
\<close>

inductive observed :: "SynchronizedData \<Rightarrow> bool" where
  initial:
    "db ''api_selection'' = None \<Longrightarrow> observed db"
| api_selection_round:
    "observed (synchronized_data self) \<Longrightarrow>
     most_voted_payload self
       = PStr (payload_api_selection (ApiSelectionBehaviour_async_act sender params)) \<Longrightarrow>
     ApiSelectionRound_end_block self = Some (db', ev) \<Longrightarrow>
     observed db'"
| decision_making_round:
    "observed (synchronized_data self) \<Longrightarrow>
     DecisionMakingRound_end_block self = Some (db', ev) \<Longrightarrow>
     observed db'"
| inherited_round:
    "observed db \<Longrightarrow>
     attrs = DataPullRound_attrs \<or> attrs = AlternativeDataPullRound_attrs
       \<or> attrs = TxPreparationRound_attrs \<Longrightarrow>
     set (map fst kwargs) \<subseteq> insert (collection_key attrs) (set (selection_key attrs)) \<Longrightarrow>
     observed (SynchronizedData_update db kwargs)"

text \<open>
  Modelled from the spec: the workflow engine of the framework (\<^verbatim>\<open>AbciApp\<close>), which
  is not in the source tree. Sections 2, 4.2 and 4.3 of the specification: the active
  round ends a block with new synchronized data and an event, and the engine moves to the
  round that the transition function gives for the event; a round left undecided fires
  ROUND_TIMEOUT, with the data as they are. The winning payload of a round that inherits
  its \<^verbatim>\<open>end_block\<close> carries one value for each selection key.
\<close>

inductive step :: "Round \<times> SynchronizedData \<Rightarrow> Round \<times> SynchronizedData \<Rightarrow> bool" where
  ApiSelection_ends:
    "synchronized_data self = db \<Longrightarrow>
     ApiSelectionRound_end_block self = Some (db', ev) \<Longrightarrow>
     next_round ApiSelectionRound ev = Some r' \<Longrightarrow>
     step (ApiSelectionRound, db) (r', db')"
| DataPull_ends:
    "synchronized_data self = db \<Longrightarrow>
     length (most_voted_payload_values self) = length (selection_key DataPullRound_attrs) \<Longrightarrow>
     CollectSameUntilThresholdRound_end_block DataPullRound_attrs self = Some (db', ev) \<Longrightarrow>
     next_round DataPullRound ev = Some r' \<Longrightarrow>
     step (DataPullRound, db) (r', db')"
| AlternativeDataPull_ends:
    "synchronized_data self = db \<Longrightarrow>
     length (most_voted_payload_values self)
       = length (selection_key AlternativeDataPullRound_attrs) \<Longrightarrow>
     CollectSameUntilThresholdRound_end_block AlternativeDataPullRound_attrs self
       = Some (db', ev) \<Longrightarrow>
     next_round AlternativeDataPullRound ev = Some r' \<Longrightarrow>
     step (AlternativeDataPullRound, db) (r', db')"
| DecisionMaking_ends:
    "synchronized_data self = db \<Longrightarrow>
     DecisionMakingRound_end_block self = Some (db', ev) \<Longrightarrow>
     next_round DecisionMakingRound ev = Some r' \<Longrightarrow>
     step (DecisionMakingRound, db) (r', db')"
| TxPreparation_ends:
    "synchronized_data self = db \<Longrightarrow>
     length (most_voted_payload_values self)
       = length (selection_key TxPreparationRound_attrs) \<Longrightarrow>
     CollectSameUntilThresholdRound_end_block TxPreparationRound_attrs self = Some (db', ev) \<Longrightarrow>
     next_round TxPreparationRound ev = Some r' \<Longrightarrow>
     step (TxPreparationRound, db) (r', db')"
| round_timeout:
    "next_round r ROUND_TIMEOUT = Some r' \<Longrightarrow> step (r, db) (r', db)"

section \<open>The transition table\<close>

text \<open>
  Claim C4. For every round and every event, the entry of the transition function of the
  code is the entry of the table of the specification: the API selection round loops on
  NO_MAJORITY and ROUND_TIMEOUT and branches on COINGECKO and COINMARKETCAP; the two data
  pull rounds loop on NO_MAJORITY and ROUND_TIMEOUT and go to the decision round on DONE;
  the decision round goes to its finished round on DONE and ERROR, to transaction
  preparation on TRANSACT, and loops on the two remaining columns of the table
  (NO_MAJORITY, ROUND_TIMEOUT); transaction preparation goes to its finished round on DONE
  and loops on the same two columns; a pair outside the table has no entry on either
  side; the dictionaries of the two finished rounds are empty.
\<close>

theorem transition_function_is_spec_table:
  "next_round r e = spec_transition_table r e
   \<and> transition_function FinishedDecisionMakingRound = []
   \<and> transition_function FinishedTxPreparationRound = []"
  by (cases r; cases e; simp add: next_round_def)

section \<open>Validation of the parameters\<close>

text \<open>
  Claim C7. \<^verbatim>\<open>validate_params\<close> raises if and only if a configuration invariant is
  violated: the token list and the list of target percentages differ in length, or the
  target percentages do not sum to 100, or the variation threshold is outside the interval
  from 0 to 100. What it raises is a ValueError, a value of the error type, which holds no
  round event. When the three invariants hold, it returns and the parameters are as they
  were.
\<close>

theorem validate_params_raises_iff:
  "(isl (validate_params p) \<longleftrightarrow>
      (length (tokens_to_rebalance p) \<noteq> length (target_percentages p)
       \<or> sum_list (target_percentages p) \<noteq> 100
       \<or> \<not> (0 \<le> variation_threshold p \<and> variation_threshold p \<le> 100)))
   \<and> (\<forall>e. validate_params p = Inl e \<longrightarrow> (\<exists>msg. e = ValueError msg))
   \<and> (length (tokens_to_rebalance p) = length (target_percentages p)
        \<and> sum_list (target_percentages p) = 100
        \<and> 0 \<le> variation_threshold p \<and> variation_threshold p \<le> 100
       \<longrightarrow> validate_params p = Inr p)"
  by (auto simp: validate_params_def)

theorem validate_params_raises_iff_witness:
  "validate_params \<lparr>api_selection_string = ''coingecko'', tokens_to_rebalance = [''ETH'', ''USDC''],
       target_percentages = [50, 50], variation_threshold = 5\<rparr>
     = Inr \<lparr>api_selection_string = ''coingecko'', tokens_to_rebalance = [''ETH'', ''USDC''],
       target_percentages = [50, 50], variation_threshold = 5\<rparr>
   \<and> isl (validate_params \<lparr>api_selection_string = ''coingecko'', tokens_to_rebalance = [''ETH'', ''USDC''],
       target_percentages = [50, 40], variation_threshold = 5\<rparr>)
   \<and> isl (validate_params \<lparr>api_selection_string = ''coingecko'', tokens_to_rebalance = [''ETH''],
       target_percentages = [50, 50], variation_threshold = 5\<rparr>)
   \<and> isl (validate_params \<lparr>api_selection_string = ''coingecko'', tokens_to_rebalance = [''ETH'', ''USDC''],
       target_percentages = [50, 50], variation_threshold = 101\<rparr>)"
  using validate_params_raises_iff [of "\<lparr>api_selection_string = ''coingecko'', tokens_to_rebalance = [''ETH'', ''USDC''],
       target_percentages = [50, 50], variation_threshold = 5\<rparr>"]
    validate_params_raises_iff [of "\<lparr>api_selection_string = ''coingecko'', tokens_to_rebalance = [''ETH'', ''USDC''],
       target_percentages = [50, 40], variation_threshold = 5\<rparr>"]
    validate_params_raises_iff [of "\<lparr>api_selection_string = ''coingecko'', tokens_to_rebalance = [''ETH''],
       target_percentages = [50, 50], variation_threshold = 5\<rparr>"]
    validate_params_raises_iff [of "\<lparr>api_selection_string = ''coingecko'', tokens_to_rebalance = [''ETH'', ''USDC''],
       target_percentages = [50, 50], variation_threshold = 101\<rparr>"]
  by simp

section \<open>The API selection round\<close>










text \<open>
  The restriction to the states of a run matters. On data that already record
  \<^verbatim>\<open>coinmarketcap\<close>, which no run hands to the round, the event still follows the
  comparison: the choice \<^verbatim>\<open>coingecko\<close> gives COINMARKETCAP and the choice
  \<^verbatim>\<open>coinmarketcap\<close> gives COINGECKO.
\<close>

lemma ApiSelectionRound_end_block_recorded_coinmarketcap:
  "ApiSelectionRound_end_block
     \<lparr>synchronized_data = [''api_selection'' \<mapsto> PStr ''coinmarketcap''],
      collection = [(''agent_0'', \<lparr>api_sender = ''agent_0'', payload_api_selection = ''coingecko''\<rparr>)],
      threshold_reached = True,
      most_voted_payload = PStr ''coingecko'',
      most_voted_payload_values = [PStr ''coingecko''],
      is_majority_possible = True\<rparr>
   = Some ([''api_selection'' \<mapsto> PStr ''coingecko''], COINMARKETCAP)
   \<and> ApiSelectionRound_end_block
     \<lparr>synchronized_data = [''api_selection'' \<mapsto> PStr ''coinmarketcap''],
      collection = [(''agent_0'', \<lparr>api_sender = ''agent_0'', payload_api_selection = ''coinmarketcap''\<rparr>)],
      threshold_reached = True,
      most_voted_payload = PStr ''coinmarketcap'',
      most_voted_payload_values = [PStr ''coinmarketcap''],
      is_majority_possible = True\<rparr>
   = Some ([''api_selection'' \<mapsto> PStr ''coinmarketcap''], COINGECKO)"
  by (simp add: ApiSelectionRound_end_block_def api_selection_def db_get_def SynchronizedData_update_def)

section \<open>The decision behaviour\<close>

text \<open>
  The event of \<^verbatim>\<open>get_next_event\<close> by the result of
  \<^verbatim>\<open>calculate_rebalancing_actions\<close>: DONE for no result, TRANSACT for every
  dictionary, with the serialized adjustments only when the dictionary is not empty.
\<close>

lemma get_next_event_cases:
  "get_next_event json_dumps json_loads price db params =
     (case calculate_rebalancing_actions json_loads price db params of
        Inl e \<Rightarrow> Inl e
      | Inr None \<Rightarrow> Inr (''done'', None)
      | Inr (Some []) \<Rightarrow> Inr (''transact'', None)
      | Inr (Some (a # actions)) \<Rightarrow> Inr (''transact'', Some (json_dumps (a # actions))))"
  by (simp add: get_next_event_def split: sum.splits option.splits list.splits)

text \<open>
  Claim C2, at an input where the code and the claim part. Both tokens are at their target
  (values 50 and 50 of a total of 100, targets 50 and 50, threshold 5), so
  \<^verbatim>\<open>calculate_rebalancing_actions\<close> returns the empty dictionary; the empty dictionary
  is not \<^verbatim>\<open>None\<close>, and \<^verbatim>\<open>get_next_event\<close> returns the value of TRANSACT, with
  no adjustments.
\<close>

theorem get_next_event_empty_actions:
  "calculate_rebalancing_actions
       (map_of [(''{\"ETH\": 50.0, \"USDC\": 50.0}'', [(''ETH'', 50), (''USDC'', 50)])])
       (map_of [(''ETH'', 2000), (''USDC'', 1)])
       [''token_values'' \<mapsto> PStr ''{\"ETH\": 50.0, \"USDC\": 50.0}'', ''total_portfolio_value'' \<mapsto> PNum 100]
       \<lparr>api_selection_string = ''coingecko'', tokens_to_rebalance = [''ETH'', ''USDC''],
        target_percentages = [50, 50], variation_threshold = 5\<rparr>
     = Inr (Some [])
   \<and> get_next_event json_dumps
       (map_of [(''{\"ETH\": 50.0, \"USDC\": 50.0}'', [(''ETH'', 50), (''USDC'', 50)])])
       (map_of [(''ETH'', 2000), (''USDC'', 1)])
       [''token_values'' \<mapsto> PStr ''{\"ETH\": 50.0, \"USDC\": 50.0}'', ''total_portfolio_value'' \<mapsto> PNum 100]
       \<lparr>api_selection_string = ''coingecko'', tokens_to_rebalance = [''ETH'', ''USDC''],
        target_percentages = [50, 50], variation_threshold = 5\<rparr>
     = Inr (''transact'', None)"
  by (simp add: get_next_event_def calculate_rebalancing_actions_def loaded_token_values_def
      token_values_def total_portfolio_value_def db_get_def dict_get_def enumerate_eq_zip upt_rec)

section \<open>The decision round\<close>

lemma find_most_voted_payload_data_None:
  "(\<forall>p \<in> set ps. PStr (payload_event p) \<noteq> mvp) \<Longrightarrow> find_most_voted_payload_data mvp ps = None"
  by (induction ps) auto

lemma find_most_voted_payload_data_first:
  "(\<forall>q \<in> set pre. PStr (payload_event q) \<noteq> mvp) \<Longrightarrow> PStr (payload_event p) = mvp \<Longrightarrow>
   find_most_voted_payload_data mvp (pre @ p # post) = Some p"
  by (induction pre) auto

lemma find_most_voted_payload_data_Some:
  "find_most_voted_payload_data mvp ps = Some p \<Longrightarrow> p \<in> set ps \<and> PStr (payload_event p) = mvp"
  by (induction ps) (auto split: if_splits)

lemma SynchronizedData_update_single:
  "SynchronizedData_update db [(k, v)] = db(k \<mapsto> v)"
  by (simp add: SynchronizedData_update_def)

text \<open>
  Claim C5. On quorum, \<^verbatim>\<open>DecisionMakingRound.end_block\<close> takes the first payload of
  the collection whose event is the most voted payload. When the collection has no such
  payload, it emits ERROR and the synchronized data are unchanged. When the payload it
  found has no adjustments, it emits DONE and the synchronized data are unchanged. When the
  payload it found has adjustments, it emits TRANSACT with the adjustments written under
  \<^verbatim>\<open>adjustment_balances\<close>; and it emits TRANSACT in no other case.
\<close>

theorem DecisionMakingRound_end_block_on_quorum:
  assumes "threshold_reached self"
  shows
    "((\<forall>p \<in> set (map snd (collection self)). PStr (payload_event p) \<noteq> most_voted_payload self)
        \<longrightarrow> DecisionMakingRound_end_block self = Some (synchronized_data self, ERROR))
     \<and> (\<forall>pre p post.
           map snd (collection self) = pre @ p # post
           \<and> (\<forall>q \<in> set pre. PStr (payload_event q) \<noteq> most_voted_payload self)
           \<and> PStr (payload_event p) = most_voted_payload self
           \<longrightarrow> (payload_adjustment_balances p = None
                  \<longrightarrow> DecisionMakingRound_end_block self = Some (synchronized_data self, DONE))
               \<and> (\<forall>ab. payload_adjustment_balances p = Some ab
                  \<longrightarrow> DecisionMakingRound_end_block self
                       = Some ((synchronized_data self)(''adjustment_balances'' \<mapsto> PStr ab), TRANSACT)))
     \<and> (\<forall>db'. DecisionMakingRound_end_block self = Some (db', TRANSACT)
           \<longrightarrow> (\<exists>p ab. p \<in> set (map snd (collection self))
                  \<and> PStr (payload_event p) = most_voted_payload self
                  \<and> payload_adjustment_balances p = Some ab
                  \<and> db' = (synchronized_data self)(''adjustment_balances'' \<mapsto> PStr ab)))"
proof (intro conjI allI impI)
  assume "\<forall>p \<in> set (map snd (collection self)). PStr (payload_event p) \<noteq> most_voted_payload self"
  then have "find_most_voted_payload_data (most_voted_payload self) (map snd (collection self)) = None"
    by (rule find_most_voted_payload_data_None)
  with assms show "DecisionMakingRound_end_block self = Some (synchronized_data self, ERROR)"
    by (simp add: DecisionMakingRound_end_block_def)
next
  fix pre p post
  assume loc: "map snd (collection self) = pre @ p # post
      \<and> (\<forall>q \<in> set pre. PStr (payload_event q) \<noteq> most_voted_payload self)
      \<and> PStr (payload_event p) = most_voted_payload self"
    and none: "payload_adjustment_balances p = None"
  from loc have "find_most_voted_payload_data (most_voted_payload self) (map snd (collection self)) = Some p"
    by (simp add: find_most_voted_payload_data_first)
  with assms none show "DecisionMakingRound_end_block self = Some (synchronized_data self, DONE)"
    by (simp add: DecisionMakingRound_end_block_def)
next
  fix pre p post ab
  assume loc: "map snd (collection self) = pre @ p # post
      \<and> (\<forall>q \<in> set pre. PStr (payload_event q) \<noteq> most_voted_payload self)
      \<and> PStr (payload_event p) = most_voted_payload self"
    and some: "payload_adjustment_balances p = Some ab"
  from loc have "find_most_voted_payload_data (most_voted_payload self) (map snd (collection self)) = Some p"
    by (simp add: find_most_voted_payload_data_first)
  with assms some show "DecisionMakingRound_end_block self
      = Some ((synchronized_data self)(''adjustment_balances'' \<mapsto> PStr ab), TRANSACT)"
    by (simp add: DecisionMakingRound_end_block_def SynchronizedData_update_single)
next
  fix db'
  assume tx: "DecisionMakingRound_end_block self = Some (db', TRANSACT)"
  with assms obtain p ab where
      f: "find_most_voted_payload_data (most_voted_payload self) (map snd (collection self)) = Some p"
      and ab: "payload_adjustment_balances p = Some ab"
      and db': "db' = (synchronized_data self)(''adjustment_balances'' \<mapsto> PStr ab)"
    by (auto simp: DecisionMakingRound_end_block_def SynchronizedData_update_single
        split: option.splits)
  from find_most_voted_payload_data_Some [OF f] ab db'
  show "\<exists>p ab. p \<in> set (map snd (collection self))
      \<and> PStr (payload_event p) = most_voted_payload self
      \<and> payload_adjustment_balances p = Some ab
      \<and> db' = (synchronized_data self)(''adjustment_balances'' \<mapsto> PStr ab)"
    by blast
qed

theorem DecisionMakingRound_end_block_on_quorum_witness:
  "DecisionMakingRound_end_block
     \<lparr>synchronized_data = [''total_portfolio_value'' \<mapsto> PNum 100],
      collection = [(''agent_0'', \<lparr>decision_sender = ''agent_0'', payload_event = ''done'',
                                  payload_adjustment_balances = None\<rparr>)],
      threshold_reached = True, most_voted_payload = PStr ''transact'',
      most_voted_payload_values = [PStr ''transact'', PNone], is_majority_possible = True\<rparr>
     = Some ([''total_portfolio_value'' \<mapsto> PNum 100], ERROR)
   \<and> DecisionMakingRound_end_block
     \<lparr>synchronized_data = [''total_portfolio_value'' \<mapsto> PNum 100],
      collection = [(''agent_0'', \<lparr>decision_sender = ''agent_0'', payload_event = ''transact'',
                                  payload_adjustment_balances = Some ''{\"ETH\": 0.025}''\<rparr>),
                    (''agent_1'', \<lparr>decision_sender = ''agent_1'', payload_event = ''done'',
                                  payload_adjustment_balances = None\<rparr>),
                    (''agent_2'', \<lparr>decision_sender = ''agent_2'', payload_event = ''done'',
                                  payload_adjustment_balances = None\<rparr>)],
      threshold_reached = True, most_voted_payload = PStr ''done'',
      most_voted_payload_values = [PStr ''done'', PNone], is_majority_possible = True\<rparr>
     = Some ([''total_portfolio_value'' \<mapsto> PNum 100], DONE)
   \<and> DecisionMakingRound_end_block
     \<lparr>synchronized_data = [''total_portfolio_value'' \<mapsto> PNum 100],
      collection = [(''agent_0'', \<lparr>decision_sender = ''agent_0'', payload_event = ''done'',
                                  payload_adjustment_balances = None\<rparr>),
                    (''agent_1'', \<lparr>decision_sender = ''agent_1'', payload_event = ''transact'',
                                  payload_adjustment_balances = Some ''{\"ETH\": 0.025}''\<rparr>),
                    (''agent_2'', \<lparr>decision_sender = ''agent_2'', payload_event = ''transact'',
                                  payload_adjustment_balances = Some ''{\"ETH\": 0.025}''\<rparr>)],
      threshold_reached = True, most_voted_payload = PStr ''transact'',
      most_voted_payload_values = [PStr ''transact'', PStr ''{\"ETH\": 0.025}''],
      is_majority_possible = True\<rparr>
     = Some ([''total_portfolio_value'' \<mapsto> PNum 100,
              ''adjustment_balances'' \<mapsto> PStr ''{\"ETH\": 0.025}''], TRANSACT)"
proof (intro conjI)
  let ?db = "[''total_portfolio_value'' \<mapsto> PNum 100] :: SynchronizedData"
  let ?done = "\<lparr>decision_sender = ''agent_0'', payload_event = ''done'',
                 payload_adjustment_balances = None\<rparr>"
  let ?S1 = "\<lparr>synchronized_data = ?db,
      collection = [(''agent_0'', ?done)],
      threshold_reached = True, most_voted_payload = PStr ''transact'',
      most_voted_payload_values = [PStr ''transact'', PNone], is_majority_possible = True\<rparr>"
  have "threshold_reached ?S1" by simp
  from DecisionMakingRound_end_block_on_quorum [OF this, THEN conjunct1]
  show "DecisionMakingRound_end_block ?S1 = Some (?db, ERROR)" by simp
next
  let ?db = "[''total_portfolio_value'' \<mapsto> PNum 100] :: SynchronizedData"
  let ?p0 = "\<lparr>decision_sender = ''agent_0'', payload_event = ''transact'',
               payload_adjustment_balances = Some ''{\"ETH\": 0.025}''\<rparr>"
  let ?p1 = "\<lparr>decision_sender = ''agent_1'', payload_event = ''done'',
               payload_adjustment_balances = None\<rparr>"
  let ?p2 = "\<lparr>decision_sender = ''agent_2'', payload_event = ''done'',
               payload_adjustment_balances = None\<rparr>"
  let ?S2 = "\<lparr>synchronized_data = ?db,
      collection = [(''agent_0'', ?p0), (''agent_1'', ?p1), (''agent_2'', ?p2)],
      threshold_reached = True, most_voted_payload = PStr ''done'',
      most_voted_payload_values = [PStr ''done'', PNone], is_majority_possible = True\<rparr>"
  have "threshold_reached ?S2" by simp
  from DecisionMakingRound_end_block_on_quorum
    [OF this, THEN conjunct2, THEN conjunct1, rule_format, of "[?p0]" ?p1 "[?p2]", THEN conjunct1]
  show "DecisionMakingRound_end_block ?S2 = Some (?db, DONE)" by simp
next
  let ?db = "[''total_portfolio_value'' \<mapsto> PNum 100] :: SynchronizedData"
  let ?p0 = "\<lparr>decision_sender = ''agent_0'', payload_event = ''done'',
               payload_adjustment_balances = None\<rparr>"
  let ?p1 = "\<lparr>decision_sender = ''agent_1'', payload_event = ''transact'',
               payload_adjustment_balances = Some ''{\"ETH\": 0.025}''\<rparr>"
  let ?p2 = "\<lparr>decision_sender = ''agent_2'', payload_event = ''transact'',
               payload_adjustment_balances = Some ''{\"ETH\": 0.025}''\<rparr>"
  let ?S3 = "\<lparr>synchronized_data = ?db,
      collection = [(''agent_0'', ?p0), (''agent_1'', ?p1), (''agent_2'', ?p2)],
      threshold_reached = True, most_voted_payload = PStr ''transact'',
      most_voted_payload_values = [PStr ''transact'', PStr ''{\"ETH\": 0.025}''],
      is_majority_possible = True\<rparr>"
  have "threshold_reached ?S3" by simp
  from DecisionMakingRound_end_block_on_quorum
    [OF this, THEN conjunct2, THEN conjunct1, rule_format, of "[?p0]" ?p1 "[?p2]", THEN conjunct2,
     rule_format, of "''{\"ETH\": 0.025}''"]
  show "DecisionMakingRound_end_block ?S3
     = Some ([''total_portfolio_value'' \<mapsto> PNum 100,
              ''adjustment_balances'' \<mapsto> PStr ''{\"ETH\": 0.025}''], TRANSACT)" by simp
qed

section \<open>The two data pull rounds\<close>

text \<open>
  Claim C8. \<^verbatim>\<open>DataPullRound\<close> and \<^verbatim>\<open>AlternativeDataPullRound\<close> end a block alike:
  on the same synchronized data, the same collection of payload values and the same report
  of the collector, the results are equal. Both store the collection under
  \<^verbatim>\<open>participant_to_data_round\<close>, both project the values of the winning payload to
  \<^verbatim>\<open>token_values\<close> and \<^verbatim>\<open>total_portfolio_value\<close>, both emit DONE on quorum and
  NO_MAJORITY when no quorum exists and a majority is impossible, and neither ends the
  block otherwise.
\<close>

theorem DataPullRound_AlternativeDataPullRound_agree:
  "CollectSameUntilThresholdRound_end_block DataPullRound_attrs self
     = CollectSameUntilThresholdRound_end_block AlternativeDataPullRound_attrs self
   \<and> collection_key DataPullRound_attrs = ''participant_to_data_round''
   \<and> collection_key AlternativeDataPullRound_attrs = ''participant_to_data_round''
   \<and> selection_key DataPullRound_attrs = [''token_values'', ''total_portfolio_value'']
   \<and> selection_key AlternativeDataPullRound_attrs = [''token_values'', ''total_portfolio_value'']
   \<and> (threshold_reached self \<longrightarrow>
        CollectSameUntilThresholdRound_end_block DataPullRound_attrs self
          = Some (SynchronizedData_update (synchronized_data self)
                    ((''participant_to_data_round'', PColl (collection self))
                     # zip [''token_values'', ''total_portfolio_value'']
                         (most_voted_payload_values self)), DONE))
   \<and> (\<not> threshold_reached self \<and> \<not> is_majority_possible self \<longrightarrow>
        CollectSameUntilThresholdRound_end_block DataPullRound_attrs self
          = Some (synchronized_data self, NO_MAJORITY))
   \<and> (\<not> threshold_reached self \<and> is_majority_possible self \<longrightarrow>
        CollectSameUntilThresholdRound_end_block DataPullRound_attrs self = None)"
  by (simp add: CollectSameUntilThresholdRound_end_block_def DataPullRound_attrs_def
      AlternativeDataPullRound_attrs_def)

theorem DataPullRound_AlternativeDataPullRound_agree_witness:
  "CollectSameUntilThresholdRound_end_block DataPullRound_attrs
     \<lparr>synchronized_data = [''api_selection'' \<mapsto> PStr ''coinmarketcap''],
      collection = [(''agent_0'', [PStr ''{\"ETH\": 20.0}'', PNum 20])],
      threshold_reached = True, most_voted_payload = PStr ''{\"ETH\": 20.0}'',
      most_voted_payload_values = [PStr ''{\"ETH\": 20.0}'', PNum 20], is_majority_possible = True\<rparr>
     = Some ([''api_selection'' \<mapsto> PStr ''coinmarketcap'',
              ''participant_to_data_round'' \<mapsto> PColl [(''agent_0'', [PStr ''{\"ETH\": 20.0}'', PNum 20])],
              ''token_values'' \<mapsto> PStr ''{\"ETH\": 20.0}'',
              ''total_portfolio_value'' \<mapsto> PNum 20], DONE)
   \<and> CollectSameUntilThresholdRound_end_block AlternativeDataPullRound_attrs
     \<lparr>synchronized_data = [''api_selection'' \<mapsto> PStr ''coinmarketcap''],
      collection = [(''agent_0'', [PStr ''{\"ETH\": 20.0}'', PNum 20])],
      threshold_reached = True, most_voted_payload = PStr ''{\"ETH\": 20.0}'',
      most_voted_payload_values = [PStr ''{\"ETH\": 20.0}'', PNum 20], is_majority_possible = True\<rparr>
     = Some ([''api_selection'' \<mapsto> PStr ''coinmarketcap'',
              ''participant_to_data_round'' \<mapsto> PColl [(''agent_0'', [PStr ''{\"ETH\": 20.0}'', PNum 20])],
              ''token_values'' \<mapsto> PStr ''{\"ETH\": 20.0}'',
              ''total_portfolio_value'' \<mapsto> PNum 20], DONE)
   \<and> CollectSameUntilThresholdRound_end_block AlternativeDataPullRound_attrs
     \<lparr>synchronized_data = Map.empty,
      collection = [(''agent_0'', [PStr ''{\"ETH\": 20.0}'', PNum 20]), (''agent_1'', [PNone, PNone])],
      threshold_reached = False, most_voted_payload = PNone,
      most_voted_payload_values = [], is_majority_possible = False\<rparr>
     = Some (Map.empty, NO_MAJORITY)"
proof -
  let ?S1 = "\<lparr>synchronized_data = [''api_selection'' \<mapsto> PStr ''coinmarketcap''],
      collection = [(''agent_0'', [PStr ''{\"ETH\": 20.0}'', PNum 20])],
      threshold_reached = True, most_voted_payload = PStr ''{\"ETH\": 20.0}'',
      most_voted_payload_values = [PStr ''{\"ETH\": 20.0}'', PNum 20], is_majority_possible = True\<rparr>"
  let ?S2 = "\<lparr>synchronized_data = Map.empty,
      collection = [(''agent_0'', [PStr ''{\"ETH\": 20.0}'', PNum 20]), (''agent_1'', [PNone, PNone])],
      threshold_reached = False, most_voted_payload = PNone,
      most_voted_payload_values = [], is_majority_possible = False\<rparr>"
  note A = DataPullRound_AlternativeDataPullRound_agree [of ?S1]
  note B = DataPullRound_AlternativeDataPullRound_agree [of ?S2]
  from A have same1: "CollectSameUntilThresholdRound_end_block DataPullRound_attrs ?S1
      = CollectSameUntilThresholdRound_end_block AlternativeDataPullRound_attrs ?S1"
    by (rule conjunct1)
  from B have same2: "CollectSameUntilThresholdRound_end_block DataPullRound_attrs ?S2
      = CollectSameUntilThresholdRound_end_block AlternativeDataPullRound_attrs ?S2"
    by (rule conjunct1)
  from A have "threshold_reached ?S1 \<longrightarrow>
      CollectSameUntilThresholdRound_end_block DataPullRound_attrs ?S1
        = Some (SynchronizedData_update (synchronized_data ?S1)
                  ((''participant_to_data_round'', PColl (collection ?S1))
                   # zip [''token_values'', ''total_portfolio_value'']
                       (most_voted_payload_values ?S1)), DONE)"
    by blast
  then have d1: "CollectSameUntilThresholdRound_end_block DataPullRound_attrs ?S1
     = Some ([''api_selection'' \<mapsto> PStr ''coinmarketcap'',
              ''participant_to_data_round'' \<mapsto> PColl [(''agent_0'', [PStr ''{\"ETH\": 20.0}'', PNum 20])],
              ''token_values'' \<mapsto> PStr ''{\"ETH\": 20.0}'',
              ''total_portfolio_value'' \<mapsto> PNum 20], DONE)"
    by (simp add: SynchronizedData_update_def)
  from B have "\<not> threshold_reached ?S2 \<and> \<not> is_majority_possible ?S2 \<longrightarrow>
      CollectSameUntilThresholdRound_end_block DataPullRound_attrs ?S2
        = Some (synchronized_data ?S2, NO_MAJORITY)"
    by blast
  then have d2: "CollectSameUntilThresholdRound_end_block DataPullRound_attrs ?S2
      = Some (Map.empty, NO_MAJORITY)"
    by simp
  from d1 d2 same1 same2 show ?thesis by simp
qed

section \<open>The recorded API selection\<close>

lemma api_selection_update_other:
  "''api_selection'' \<notin> set (map fst kwargs) \<Longrightarrow>
   api_selection (SynchronizedData_update db kwargs) = api_selection db"
proof (induction kwargs arbitrary: db)
  case Nil
  then show ?case by (simp add: SynchronizedData_update_def)
next
  case (Cons kv kwargs)
  obtain k v where kv: "kv = (k, v)" by (cases kv)
  from Cons.prems kv have k: "k \<noteq> ''api_selection''" and rest: "''api_selection'' \<notin> set (map fst kwargs)"
    by auto
  have "api_selection (SynchronizedData_update db (kv # kwargs))
      = api_selection (SynchronizedData_update (db(k \<mapsto> v)) kwargs)"
    by (simp add: SynchronizedData_update_def kv)
  also have "\<dots> = api_selection (db(k \<mapsto> v))"
    by (rule Cons.IH [OF rest])
  also from k have "\<dots> = api_selection db"
    by (simp add: api_selection_def db_get_def)
  finally show ?case .
qed

lemma ApiSelectionBehaviour_payload:
  "payload_api_selection (ApiSelectionBehaviour_async_act sender params)
     = (if api_selection_string params = ''coinmarketcap'' then ''coinmarketcap'' else ''coingecko'')"
  by (simp add: ApiSelectionBehaviour_async_act_def Let_def)

lemma observed_api_selection:
  "observed db \<Longrightarrow> api_selection db = PStr ''coingecko'' \<or> api_selection db = PStr ''coinmarketcap''"
proof (induction rule: observed.induct)
  case (initial db)
  then show ?case by (simp add: api_selection_def db_get_def)
next
  case (api_selection_round self sender params db' ev)
  then show ?case
    by (auto simp: ApiSelectionRound_end_block_def ApiSelectionBehaviour_payload
        SynchronizedData_update_def api_selection_def db_get_def split: if_splits)
next
  case (decision_making_round self db' ev)
  then show ?case
    by (auto simp: DecisionMakingRound_end_block_def SynchronizedData_update_def
        api_selection_def db_get_def split: if_splits option.splits)
next
  case (inherited_round db attrs kwargs)
  from inherited_round.hyps(2,3) have "''api_selection'' \<notin> set (map fst kwargs)"
    by (auto simp: DataPullRound_attrs_def AlternativeDataPullRound_attrs_def
        TxPreparationRound_attrs_def)
  with inherited_round.IH show ?case by (simp add: api_selection_update_other)
qed

text \<open>
  Claim C9. The API selection read through the synchronized data is one of the strings
  \<^verbatim>\<open>coingecko\<close> and \<^verbatim>\<open>coinmarketcap\<close>, in every synchronized data that a run
  can hold: a read before any round has set the key gives the default
  \<^verbatim>\<open>coingecko\<close>, and the payload of \<^verbatim>\<open>ApiSelectionBehaviour\<close> carries
  \<^verbatim>\<open>coinmarketcap\<close> when that is the configured string and \<^verbatim>\<open>coingecko\<close> for
  every other configured string.
\<close>

theorem api_selection_one_of_two:
  "(db ''api_selection'' = None \<longrightarrow> api_selection db = PStr ''coingecko'')
   \<and> payload_api_selection (ApiSelectionBehaviour_async_act sender params)
       = (if api_selection_string params = ''coinmarketcap'' then ''coinmarketcap'' else ''coingecko'')
   \<and> (observed db \<longrightarrow>
        api_selection db = PStr ''coingecko'' \<or> api_selection db = PStr ''coinmarketcap'')"
proof (intro conjI impI)
  assume "db ''api_selection'' = None"
  then show "api_selection db = PStr ''coingecko''"
    by (simp add: api_selection_def db_get_def)
next
  show "payload_api_selection (ApiSelectionBehaviour_async_act sender params)
       = (if api_selection_string params = ''coinmarketcap'' then ''coinmarketcap'' else ''coingecko'')"
    by (rule ApiSelectionBehaviour_payload)
next
  assume "observed db"
  then show "api_selection db = PStr ''coingecko'' \<or> api_selection db = PStr ''coinmarketcap''"
    by (rule observed_api_selection)
qed

theorem api_selection_one_of_two_witness:
  "observed [''api_selection'' \<mapsto> PStr ''coinmarketcap'']
   \<and> api_selection [''api_selection'' \<mapsto> PStr ''coinmarketcap''] = PStr ''coinmarketcap''
   \<and> api_selection Map.empty = PStr ''coingecko''
   \<and> payload_api_selection (ApiSelectionBehaviour_async_act ''agent_0''
        \<lparr>api_selection_string = ''binance'', tokens_to_rebalance = [''ETH'', ''USDC''],
         target_percentages = [50, 50], variation_threshold = 5\<rparr>) = ''coingecko''"
proof -
  let ?params = "\<lparr>api_selection_string = ''coinmarketcap'', tokens_to_rebalance = [''ETH'', ''USDC''],
         target_percentages = [50, 50], variation_threshold = 5\<rparr>"
  let ?self = "\<lparr>synchronized_data = Map.empty,
      collection = [(''agent_0'', ApiSelectionBehaviour_async_act ''agent_0'' ?params)],
      threshold_reached = True, most_voted_payload = PStr ''coinmarketcap'',
      most_voted_payload_values = [PStr ''coinmarketcap''], is_majority_possible = True\<rparr>"
  let ?db = "[''api_selection'' \<mapsto> PStr ''coinmarketcap''] :: SynchronizedData"
  have start: "observed (synchronized_data ?self)"
    by (simp add: observed.initial)
  have mvp: "most_voted_payload ?self
      = PStr (payload_api_selection (ApiSelectionBehaviour_async_act ''agent_0'' ?params))"
    by (simp add: ApiSelectionBehaviour_async_act_def)
  have ends: "ApiSelectionRound_end_block ?self = Some (?db, COINMARKETCAP)"
    by (simp add: ApiSelectionRound_end_block_def api_selection_def db_get_def
        SynchronizedData_update_def)
  have obs: "observed ?db"
    by (rule observed.api_selection_round [OF start mvp ends])
  from api_selection_one_of_two [of ?db, THEN conjunct2, THEN conjunct2] obs
  have one: "api_selection ?db = PStr ''coingecko'' \<or> api_selection ?db = PStr ''coinmarketcap''"
    by simp
  have "api_selection ?db \<noteq> PStr ''coingecko''"
    by (simp add: api_selection_def db_get_def)
  with one have two: "api_selection ?db = PStr ''coinmarketcap''" by simp
  from api_selection_one_of_two [of "Map.empty", THEN conjunct1]
  have three: "api_selection Map.empty = PStr ''coingecko''" by simp
  from api_selection_one_of_two [of "Map.empty" "''agent_0''"
      "\<lparr>api_selection_string = ''binance'', tokens_to_rebalance = [''ETH'', ''USDC''],
         target_percentages = [50, 50], variation_threshold = 5\<rparr>", THEN conjunct2, THEN conjunct1]
  have four: "payload_api_selection (ApiSelectionBehaviour_async_act ''agent_0''
        \<lparr>api_selection_string = ''binance'', tokens_to_rebalance = [''ETH'', ''USDC''],
         target_percentages = [50, 50], variation_threshold = 5\<rparr>) = ''coingecko''" by simp
  from obs two three four show ?thesis by simp
qed

section \<open>The final rounds\<close>

lemma next_round_FinishedTxPreparationRound:
  "next_round r e = Some FinishedTxPreparationRound \<longleftrightarrow> r = TxPreparationRound \<and> e = DONE"
  by (cases r; cases e; simp add: next_round_def)

lemma dom_SynchronizedData_update:
  "dom (SynchronizedData_update db kwargs) = dom db \<union> set (map fst kwargs)"
proof (induction kwargs arbitrary: db)
  case Nil
  then show ?case by (simp add: SynchronizedData_update_def)
next
  case (Cons kv kwargs)
  obtain k v where kv: "kv = (k, v)" by (cases kv)
  have "dom (SynchronizedData_update db (kv # kwargs))
      = dom (SynchronizedData_update (db(k \<mapsto> v)) kwargs)"
    by (simp add: SynchronizedData_update_def kv)
  also have "\<dots> = dom (db(k \<mapsto> v)) \<union> set (map fst kwargs)"
    by (rule Cons.IH)
  also have "\<dots> = dom db \<union> set (map fst (kv # kwargs))"
    by (auto simp: kv)
  finally show ?case .
qed

lemma TxPreparationRound_DONE_keys:
  assumes len: "length (most_voted_payload_values self) = length (selection_key TxPreparationRound_attrs)"
    and ends: "CollectSameUntilThresholdRound_end_block TxPreparationRound_attrs self = Some (db', DONE)"
  shows "''most_voted_tx_hash'' \<in> dom db' \<and> ''tx_submitter'' \<in> dom db'"
proof -
  from len obtain a b where vals: "most_voted_payload_values self = [a, b]"
    by (cases "most_voted_payload_values self" rule: list.exhaust;
        simp add: TxPreparationRound_attrs_def length_Suc_conv)
       (metis length_0_conv length_Suc_conv)
  from ends have db': "db' = SynchronizedData_update (synchronized_data self)
      ((''participant_to_tx_round'', PColl (collection self))
       # zip [''tx_submitter'', ''most_voted_tx_hash''] (most_voted_payload_values self))"
    by (auto simp: CollectSameUntilThresholdRound_end_block_def TxPreparationRound_attrs_def
        split: if_splits)
  show ?thesis
    by (simp add: db' vals dom_SynchronizedData_update)
qed

lemma step_into_FinishedTxPreparationRound:
  assumes "step (r, db) (FinishedTxPreparationRound, db')"
  shows "''most_voted_tx_hash'' \<in> dom db' \<and> ''tx_submitter'' \<in> dom db'"
  using assms
proof (cases rule: step.cases)
  case (TxPreparation_ends self ev)
  from TxPreparation_ends(5) have "ev = DONE"
    by (simp add: next_round_FinishedTxPreparationRound)
  with TxPreparation_ends(3,4) show ?thesis
    by (simp add: TxPreparationRound_DONE_keys)
qed (simp_all add: next_round_FinishedTxPreparationRound)

lemma run_into_FinishedTxPreparationRound:
  assumes "step\<^sup>*\<^sup>* (r, db0) (FinishedTxPreparationRound, db)"
    and "r \<noteq> FinishedTxPreparationRound"
  shows "''most_voted_tx_hash'' \<in> dom db \<and> ''tx_submitter'' \<in> dom db"
  using assms
proof (cases rule: rtranclp.cases)
  case rtrancl_refl
  with assms(2) show ?thesis by simp
next
  case (rtrancl_into_rtrancl b)
  obtain r' db' where "b = (r', db')" by (cases b)
  with rtrancl_into_rtrancl(2) show ?thesis
    by (simp add: step_into_FinishedTxPreparationRound)
qed

lemma run_to_DecisionMakingRound:
  "step\<^sup>*\<^sup>* (ApiSelectionRound, Map.empty)
     (DecisionMakingRound,
      [''participant_to_data_round'' \<mapsto> PColl [(''agent_0'', [PStr ''{\"ETH\": 60.0, \"USDC\": 40.0}'', PNum 100])],
       ''token_values'' \<mapsto> PStr ''{\"ETH\": 60.0, \"USDC\": 40.0}'',
       ''total_portfolio_value'' \<mapsto> PNum 100])"
proof -
  let ?S1 = "\<lparr>synchronized_data = Map.empty,
      collection = [(''agent_0'', \<lparr>api_sender = ''agent_0'', payload_api_selection = ''coingecko''\<rparr>)],
      threshold_reached = True, most_voted_payload = PStr ''coingecko'',
      most_voted_payload_values = [PStr ''coingecko''], is_majority_possible = True\<rparr>"
  let ?S2 = "\<lparr>synchronized_data = Map.empty,
      collection = [(''agent_0'', [PStr ''{\"ETH\": 60.0, \"USDC\": 40.0}'', PNum 100])],
      threshold_reached = True, most_voted_payload = PStr ''{\"ETH\": 60.0, \"USDC\": 40.0}'',
      most_voted_payload_values = [PStr ''{\"ETH\": 60.0, \"USDC\": 40.0}'', PNum 100],
      is_majority_possible = True\<rparr>"
  let ?db2 = "[''participant_to_data_round'' \<mapsto> PColl [(''agent_0'', [PStr ''{\"ETH\": 60.0, \"USDC\": 40.0}'', PNum 100])],
       ''token_values'' \<mapsto> PStr ''{\"ETH\": 60.0, \"USDC\": 40.0}'',
       ''total_portfolio_value'' \<mapsto> PNum 100] :: SynchronizedData"
  have "step (ApiSelectionRound, Map.empty) (DataPullRound, Map.empty)"
    by (rule step.ApiSelection_ends [where self = ?S1 and ev = COINGECKO])
       (simp_all add: ApiSelectionRound_end_block_def api_selection_def db_get_def next_round_def)
  moreover have "step (DataPullRound, Map.empty) (DecisionMakingRound, ?db2)"
    by (rule step.DataPull_ends [where self = ?S2 and ev = DONE])
       (simp_all add: CollectSameUntilThresholdRound_end_block_def DataPullRound_attrs_def
          SynchronizedData_update_def next_round_def)
  ultimately show ?thesis by simp
qed

lemma run_to_FinishedDecisionMakingRound:
  "step\<^sup>*\<^sup>* (ApiSelectionRound, Map.empty)
     (FinishedDecisionMakingRound,
      [''participant_to_data_round'' \<mapsto> PColl [(''agent_0'', [PStr ''{\"ETH\": 60.0, \"USDC\": 40.0}'', PNum 100])],
       ''token_values'' \<mapsto> PStr ''{\"ETH\": 60.0, \"USDC\": 40.0}'',
       ''total_portfolio_value'' \<mapsto> PNum 100])"
proof -
  let ?db2 = "[''participant_to_data_round'' \<mapsto> PColl [(''agent_0'', [PStr ''{\"ETH\": 60.0, \"USDC\": 40.0}'', PNum 100])],
       ''token_values'' \<mapsto> PStr ''{\"ETH\": 60.0, \"USDC\": 40.0}'',
       ''total_portfolio_value'' \<mapsto> PNum 100] :: SynchronizedData"
  let ?S3 = "\<lparr>synchronized_data = ?db2,
      collection = [(''agent_0'', \<lparr>decision_sender = ''agent_0'', payload_event = ''done'',
                                  payload_adjustment_balances = None\<rparr>)],
      threshold_reached = True, most_voted_payload = PStr ''done'',
      most_voted_payload_values = [PStr ''done'', PNone], is_majority_possible = True\<rparr>"
  have "step (DecisionMakingRound, ?db2) (FinishedDecisionMakingRound, ?db2)"
    by (rule step.DecisionMaking_ends [where self = ?S3 and ev = DONE])
       (simp_all add: DecisionMakingRound_end_block_def next_round_def)
  with run_to_DecisionMakingRound show ?thesis by simp
qed

lemma run_to_FinishedTxPreparationRound:
  "step\<^sup>*\<^sup>* (ApiSelectionRound, Map.empty)
     (FinishedTxPreparationRound,
      [''participant_to_data_round'' \<mapsto> PColl [(''agent_0'', [PStr ''{\"ETH\": 60.0, \"USDC\": 40.0}'', PNum 100])],
       ''token_values'' \<mapsto> PStr ''{\"ETH\": 60.0, \"USDC\": 40.0}'',
       ''total_portfolio_value'' \<mapsto> PNum 100,
       ''adjustment_balances'' \<mapsto> PStr ''{\"ETH\": 0.025, \"USDC\": 50.0}'',
       ''participant_to_tx_round'' \<mapsto> PColl [(''agent_0'', [PStr ''another_tx_preparation_behaviour'', PStr ''0x5afe'']) ],
       ''tx_submitter'' \<mapsto> PStr ''another_tx_preparation_behaviour'',
       ''most_voted_tx_hash'' \<mapsto> PStr ''0x5afe''])"
proof -
  let ?db2 = "[''participant_to_data_round'' \<mapsto> PColl [(''agent_0'', [PStr ''{\"ETH\": 60.0, \"USDC\": 40.0}'', PNum 100])],
       ''token_values'' \<mapsto> PStr ''{\"ETH\": 60.0, \"USDC\": 40.0}'',
       ''total_portfolio_value'' \<mapsto> PNum 100] :: SynchronizedData"
  let ?db3 = "?db2(''adjustment_balances'' \<mapsto> PStr ''{\"ETH\": 0.025, \"USDC\": 50.0}'')"
  let ?db4 = "?db3(''participant_to_tx_round'' \<mapsto> PColl [(''agent_0'', [PStr ''another_tx_preparation_behaviour'', PStr ''0x5afe''])],
       ''tx_submitter'' \<mapsto> PStr ''another_tx_preparation_behaviour'',
       ''most_voted_tx_hash'' \<mapsto> PStr ''0x5afe'')"
  let ?S3 = "\<lparr>synchronized_data = ?db2,
      collection = [(''agent_0'', \<lparr>decision_sender = ''agent_0'', payload_event = ''transact'',
                                  payload_adjustment_balances = Some ''{\"ETH\": 0.025, \"USDC\": 50.0}''\<rparr>)],
      threshold_reached = True, most_voted_payload = PStr ''transact'',
      most_voted_payload_values = [PStr ''transact'', PStr ''{\"ETH\": 0.025, \"USDC\": 50.0}''],
      is_majority_possible = True\<rparr>"
  let ?S4 = "\<lparr>synchronized_data = ?db3,
      collection = [(''agent_0'', [PStr ''another_tx_preparation_behaviour'', PStr ''0x5afe''])],
      threshold_reached = True, most_voted_payload = PStr ''another_tx_preparation_behaviour'',
      most_voted_payload_values = [PStr ''another_tx_preparation_behaviour'', PStr ''0x5afe''],
      is_majority_possible = True\<rparr>"
  have "step (DecisionMakingRound, ?db2) (TxPreparationRound, ?db3)"
    by (rule step.DecisionMaking_ends [where self = ?S3 and ev = TRANSACT])
       (simp_all add: DecisionMakingRound_end_block_def SynchronizedData_update_def next_round_def)
  moreover have "step (TxPreparationRound, ?db3) (FinishedTxPreparationRound, ?db4)"
    by (rule step.TxPreparation_ends [where self = ?S4 and ev = DONE])
       (simp_all add: CollectSameUntilThresholdRound_end_block_def TxPreparationRound_attrs_def
          SynchronizedData_update_def next_round_def)
  ultimately show ?thesis using run_to_DecisionMakingRound by simp
qed


text \<open>
  Claim C10. A run from the initial round that reaches \<^verbatim>\<open>FinishedTxPreparationRound\<close>
  holds the key \<^verbatim>\<open>most_voted_tx_hash\<close> (and \<^verbatim>\<open>tx_submitter\<close>) in its
  synchronized data: the key is the declared post-condition of that final round, the only
  entry of the transition function into it is DONE of \<^verbatim>\<open>TxPreparationRound\<close>, and
  that round projects its winning payload to its two selection keys, \<^verbatim>\<open>tx_submitter\<close>
  and \<^verbatim>\<open>most_voted_tx_hash\<close>. The declared post-condition of
  \<^verbatim>\<open>FinishedDecisionMakingRound\<close> is empty, and a run reaches that round with neither
  key in its data.
\<close>

theorem FinishedTxPreparationRound_has_most_voted_tx_hash:
  "(step\<^sup>*\<^sup>* (initial_round_cls, db0) (FinishedTxPreparationRound, db)
      \<longrightarrow> ''most_voted_tx_hash'' \<in> dom db \<and> ''tx_submitter'' \<in> dom db)
   \<and> db_post_conditions FinishedTxPreparationRound = Some {''most_voted_tx_hash''}
   \<and> selection_key TxPreparationRound_attrs = [''tx_submitter'', ''most_voted_tx_hash'']
   \<and> (next_round r e = Some FinishedTxPreparationRound \<longleftrightarrow> r = TxPreparationRound \<and> e = DONE)
   \<and> db_post_conditions FinishedDecisionMakingRound = Some {}
   \<and> (\<exists>db1. step\<^sup>*\<^sup>* (initial_round_cls, Map.empty) (FinishedDecisionMakingRound, db1)
          \<and> ''most_voted_tx_hash'' \<notin> dom db1 \<and> ''tx_submitter'' \<notin> dom db1)"
proof (intro conjI impI)
  assume "step\<^sup>*\<^sup>* (initial_round_cls, db0) (FinishedTxPreparationRound, db)"
  then have "''most_voted_tx_hash'' \<in> dom db \<and> ''tx_submitter'' \<in> dom db"
    by (rule run_into_FinishedTxPreparationRound) (simp add: initial_round_cls_def)
  then show "''most_voted_tx_hash'' \<in> dom db" and "''tx_submitter'' \<in> dom db"
    by simp_all
next
  show "db_post_conditions FinishedTxPreparationRound = Some {''most_voted_tx_hash''}"
    by simp
  show "selection_key TxPreparationRound_attrs = [''tx_submitter'', ''most_voted_tx_hash'']"
    by (simp add: TxPreparationRound_attrs_def)
  show "next_round r e = Some FinishedTxPreparationRound \<longleftrightarrow> r = TxPreparationRound \<and> e = DONE"
    by (rule next_round_FinishedTxPreparationRound)
  show "db_post_conditions FinishedDecisionMakingRound = Some {}"
    by simp
  from run_to_FinishedDecisionMakingRound
  show "\<exists>db1. step\<^sup>*\<^sup>* (initial_round_cls, Map.empty) (FinishedDecisionMakingRound, db1)
          \<and> ''most_voted_tx_hash'' \<notin> dom db1 \<and> ''tx_submitter'' \<notin> dom db1"
    unfolding initial_round_cls_def
    by (rule exI [where P = "\<lambda>d. step\<^sup>*\<^sup>* (ApiSelectionRound, Map.empty) (FinishedDecisionMakingRound, d)
          \<and> ''most_voted_tx_hash'' \<notin> dom d \<and> ''tx_submitter'' \<notin> dom d", OF conjI]) simp
qed

theorem FinishedTxPreparationRound_has_most_voted_tx_hash_witness:
  "step\<^sup>*\<^sup>* (initial_round_cls, Map.empty)
     (FinishedTxPreparationRound,
      [''participant_to_data_round'' \<mapsto> PColl [(''agent_0'', [PStr ''{\"ETH\": 60.0, \"USDC\": 40.0}'', PNum 100])],
       ''token_values'' \<mapsto> PStr ''{\"ETH\": 60.0, \"USDC\": 40.0}'',
       ''total_portfolio_value'' \<mapsto> PNum 100,
       ''adjustment_balances'' \<mapsto> PStr ''{\"ETH\": 0.025, \"USDC\": 50.0}'',
       ''participant_to_tx_round'' \<mapsto> PColl [(''agent_0'', [PStr ''another_tx_preparation_behaviour'', PStr ''0x5afe'']) ],
       ''tx_submitter'' \<mapsto> PStr ''another_tx_preparation_behaviour'',
       ''most_voted_tx_hash'' \<mapsto> PStr ''0x5afe''])
   \<and> ''most_voted_tx_hash'' \<in> dom
      [''participant_to_data_round'' \<mapsto> PColl [(''agent_0'', [PStr ''{\"ETH\": 60.0, \"USDC\": 40.0}'', PNum 100])],
       ''token_values'' \<mapsto> PStr ''{\"ETH\": 60.0, \"USDC\": 40.0}'',
       ''total_portfolio_value'' \<mapsto> PNum 100,
       ''adjustment_balances'' \<mapsto> PStr ''{\"ETH\": 0.025, \"USDC\": 50.0}'',
       ''participant_to_tx_round'' \<mapsto> PColl [(''agent_0'', [PStr ''another_tx_preparation_behaviour'', PStr ''0x5afe'']) ],
       ''tx_submitter'' \<mapsto> PStr ''another_tx_preparation_behaviour'',
       ''most_voted_tx_hash'' \<mapsto> PStr ''0x5afe'']"
proof -
  let ?db4 = "[''participant_to_data_round'' \<mapsto> PColl [(''agent_0'', [PStr ''{\"ETH\": 60.0, \"USDC\": 40.0}'', PNum 100])],
       ''token_values'' \<mapsto> PStr ''{\"ETH\": 60.0, \"USDC\": 40.0}'',
       ''total_portfolio_value'' \<mapsto> PNum 100,
       ''adjustment_balances'' \<mapsto> PStr ''{\"ETH\": 0.025, \"USDC\": 50.0}'',
       ''participant_to_tx_round'' \<mapsto> PColl [(''agent_0'', [PStr ''another_tx_preparation_behaviour'', PStr ''0x5afe'']) ],
       ''tx_submitter'' \<mapsto> PStr ''another_tx_preparation_behaviour'',
       ''most_voted_tx_hash'' \<mapsto> PStr ''0x5afe''] :: SynchronizedData"
  have run: "step\<^sup>*\<^sup>* (initial_round_cls, Map.empty) (FinishedTxPreparationRound, ?db4)"
    unfolding initial_round_cls_def by (rule run_to_FinishedTxPreparationRound)
  from FinishedTxPreparationRound_has_most_voted_tx_hash
      [of "Map.empty" ?db4, THEN conjunct1, rule_format, OF run]
  have "''most_voted_tx_hash'' \<in> dom ?db4" by (rule conjunct1)
  with run show ?thesis by (rule conjI)
qed

section \<open>The portfolio allocation\<close>

lemma dict_set_map_of: "map_of (dict_set d k v) = (map_of d)(k \<mapsto> v)"
  by (simp add: dict_set_def update_conv')

lemma dict_set_distinct: "distinct (map fst d) \<Longrightarrow> distinct (map fst (dict_set d k v))"
  by (simp add: dict_set_def distinct_update)

lemma dict_set_keys: "fst ` set (dict_set d k v) = insert k (fst ` set d)"
  by (simp add: dict_set_def dom_update)

lemma dict_set_new_key: "k \<notin> fst ` set d \<Longrightarrow> dict_set d k v = d @ [(k, v)]"
  by (induction d) (auto simp: dict_set_def)

lemma balances_fold:
  "distinct (map fst d) \<Longrightarrow>
   distinct (map fst (fold (\<lambda>t acc. dict_set acc t (rb t)) ts d))
   \<and> (\<forall>t. map_of (fold (\<lambda>t acc. dict_set acc t (rb t)) ts d) t
          = (if t \<in> set ts then Some (rb t) else map_of d t))"
proof (induction ts arbitrary: d)
  case Nil
  then show ?case by simp
next
  case (Cons a ts)
  from Cons.prems have "distinct (map fst (dict_set d a (rb a)))"
    by (rule dict_set_distinct)
  from Cons.IH [OF this] show ?case
    by (auto simp: dict_set_map_of)
qed

lemma get_token_balances_Some:
  assumes "get_token_balances read_balance params = Some bs"
  shows "distinct (map fst bs)
     \<and> (\<forall>t. map_of bs t = (if t \<in> set (tokens_to_rebalance params) then Some (read_balance t) else None))"
proof -
  from assms have bs: "bs = fold (\<lambda>t acc. dict_set acc t (read_balance t)) (tokens_to_rebalance params) []"
    by (simp add: get_token_balances_def Let_def split: if_splits)
  from balances_fold [of "[]" read_balance "tokens_to_rebalance params"] show ?thesis
    by (simp add: bs)
qed

lemma allocation_loop_invariant:
  assumes "distinct (map fst items)"
    and "fst ` set items \<inter> fst ` set tvs = {}"
    and "distinct (map fst tvs)"
    and "total_value = sum_list (map snd tvs)"
    and "allocation_loop price items tvs total_value = (tvs', total')"
  shows "distinct (map fst tvs') \<and> total' = sum_list (map snd tvs')
     \<and> (\<forall>t. map_of tvs' t =
           (case map_of items t of
              Some (Some b) \<Rightarrow> (case price t of Some p \<Rightarrow> Some (b * p) | None \<Rightarrow> map_of tvs t)
            | Some None \<Rightarrow> map_of tvs t
            | None \<Rightarrow> map_of tvs t))"
  using assms
proof (induction items arbitrary: tvs total_value)
  case Nil
  then show ?case by auto
next
  case (Cons item items)
  obtain k bo where item: "item = (k, bo)" by (cases item)
  from Cons.prems(1) item have dist: "distinct (map fst items)" and knew: "k \<notin> fst ` set items"
    by auto
  from Cons.prems(2) item have disj: "fst ` set items \<inter> fst ` set tvs = {}" and kfresh: "k \<notin> fst ` set tvs"
    by auto
  show ?case
  proof (cases "\<exists>b p. bo = Some b \<and> price k = Some p")
    case True
    then obtain b p where bo: "bo = Some b" and p: "price k = Some p" by blast
    let ?tvs2 = "dict_set tvs k (b * p)"
    from Cons.prems(5) have run: "allocation_loop price items ?tvs2 (total_value + b * p) = (tvs', total')"
      by (simp add: item bo p Let_def)
    have d2: "distinct (map fst ?tvs2)"
      using Cons.prems(3) by (rule dict_set_distinct)
    have disj2: "fst ` set items \<inter> fst ` set ?tvs2 = {}"
      using disj knew by (auto simp: dict_set_keys)
    have sum2: "total_value + b * p = sum_list (map snd ?tvs2)"
      using Cons.prems(4) kfresh by (simp add: dict_set_new_key)
    from Cons.IH [OF dist disj2 d2 sum2 run]
    have IH: "distinct (map fst tvs')" "total' = sum_list (map snd tvs')"
      "\<And>t. map_of tvs' t =
           (case map_of items t of
              Some (Some b) \<Rightarrow> (case price t of Some p \<Rightarrow> Some (b * p) | None \<Rightarrow> map_of ?tvs2 t)
            | Some None \<Rightarrow> map_of ?tvs2 t
            | None \<Rightarrow> map_of ?tvs2 t)"
      by simp_all
    have "map_of items k = None"
      using knew by (simp add: map_of_eq_None_iff)
    with IH show ?thesis
      by (auto simp: item bo p dict_set_map_of split: option.splits)
  next
    case False
    with Cons.prems(5) have run: "allocation_loop price items tvs total_value = (tvs', total')"
      by (auto simp: item split: option.splits)
    from Cons.IH [OF dist disj Cons.prems(3) Cons.prems(4) run]
    have IH: "distinct (map fst tvs')" "total' = sum_list (map snd tvs')"
      "\<And>t. map_of tvs' t =
           (case map_of items t of
              Some (Some b) \<Rightarrow> (case price t of Some p \<Rightarrow> Some (b * p) | None \<Rightarrow> map_of tvs t)
            | Some None \<Rightarrow> map_of tvs t
            | None \<Rightarrow> map_of tvs t)"
      by simp_all
    have "map_of items k = None"
      using knew by (simp add: map_of_eq_None_iff)
    with IH False show ?thesis
      by (auto simp: item split: option.splits)
  qed
qed

lemma calculate_portfolio_allocation_Some:
  assumes "calculate_portfolio_allocation send_to_ipfs read_balance feed params
             = Inr (Some (tvs, total_value))"
  shows "distinct (map fst tvs)
     \<and> (\<forall>t. map_of tvs t =
           (if t \<in> set (tokens_to_rebalance params) then
              (case read_balance t of
                 None \<Rightarrow> None
               | Some b \<Rightarrow>
                   (case get_token_price_specs feed t of None \<Rightarrow> None | Some p \<Rightarrow> Some (b * p)))
            else None))
     \<and> total_value = sum_list (map snd tvs) \<and> total_value \<noteq> 0"
proof -
  from assms obtain bs where bs: "get_token_balances read_balance params = Some bs"
    by (auto simp: calculate_portfolio_allocation_def split: option.splits)
  with assms have loop: "allocation_loop (get_token_price_specs feed) bs [] 0 = (tvs, total_value)"
    and nz: "total_value \<noteq> 0"
    by (auto simp: calculate_portfolio_allocation_def split: option.splits prod.splits if_splits sum.splits)
  from get_token_balances_Some [OF bs]
  have dist: "distinct (map fst bs)"
    and look: "\<And>t. map_of bs t = (if t \<in> set (tokens_to_rebalance params) then Some (read_balance t) else None)"
    by simp_all
  have "distinct (map fst tvs) \<and> total_value = sum_list (map snd tvs)
     \<and> (\<forall>t. map_of tvs t =
           (case map_of bs t of
              Some (Some b) \<Rightarrow> (case get_token_price_specs feed t of Some p \<Rightarrow> Some (b * p) | None \<Rightarrow> map_of [] t)
            | Some None \<Rightarrow> map_of [] t
            | None \<Rightarrow> map_of [] t))"
    by (rule allocation_loop_invariant [OF dist _ _ _ loop]) simp_all
  with nz show ?thesis
    by (auto simp: look split: option.splits)
qed

text \<open>
  Claim C3, as amended. \<^verbatim>\<open>calculate_portfolio_allocation\<close> gives every token to
  rebalance whose balance and price are both available (not \<^verbatim>\<open>None\<close>) the value
  balance times price, gives no other token a value, and returns the sum of the values as
  the total, which is not zero. A balance of zero is available: on the balances 10 and 0
  and the prices 2 and 5 of the two tokens that the behaviour can price (ETH for A, USDC
  for B), the result is the values 20 and 0 and the total 20, the second token included
  with the value 0.
\<close>

theorem calculate_portfolio_allocation_values:
  "(calculate_portfolio_allocation send_to_ipfs read_balance feed params
      = Inr (Some (tvs, total_value))
    \<longrightarrow> distinct (map fst tvs)
        \<and> (\<forall>t. map_of tvs t =
              (if t \<in> set (tokens_to_rebalance params) then
                 (case read_balance t of
                    None \<Rightarrow> None
                  | Some b \<Rightarrow>
                      (case get_token_price_specs feed t of None \<Rightarrow> None | Some p \<Rightarrow> Some (b * p)))
               else None))
        \<and> total_value = sum_list (map snd tvs) \<and> total_value \<noteq> 0)
   \<and> calculate_portfolio_allocation send_to_ipfs
        (map_of [(''ETH'', 10), (''USDC'', 0)])
        (map_of [(''ethereum'', 2), (''usd-coin'', 5)])
        \<lparr>api_selection_string = ''coingecko'', tokens_to_rebalance = [''ETH'', ''USDC''],
         target_percentages = [50, 50], variation_threshold = 5\<rparr>
      = Inr (Some ([(''ETH'', 20), (''USDC'', 0)], 20))"
proof (intro conjI impI)
  assume a: "calculate_portfolio_allocation send_to_ipfs read_balance feed params
      = Inr (Some (tvs, total_value))"
  note r = calculate_portfolio_allocation_Some [OF a]
  from r show "distinct (map fst tvs)" by simp
  from r show "\<forall>t. map_of tvs t =
              (if t \<in> set (tokens_to_rebalance params) then
                 (case read_balance t of
                    None \<Rightarrow> None
                  | Some b \<Rightarrow>
                      (case get_token_price_specs feed t of None \<Rightarrow> None | Some p \<Rightarrow> Some (b * p)))
               else None)" by simp
  from r show "total_value = sum_list (map snd tvs)" by simp
  from r show "total_value \<noteq> 0" by simp
next
  show "calculate_portfolio_allocation send_to_ipfs
        (map_of [(''ETH'', 10), (''USDC'', 0)])
        (map_of [(''ethereum'', 2), (''usd-coin'', 5)])
        \<lparr>api_selection_string = ''coingecko'', tokens_to_rebalance = [''ETH'', ''USDC''],
         target_percentages = [50, 50], variation_threshold = 5\<rparr>
      = Inr (Some ([(''ETH'', 20), (''USDC'', 0)], 20))"
    by (simp add: calculate_portfolio_allocation_def get_token_balances_def dict_set_def
        get_token_price_specs_def generate_and_store_report_def Let_def)
qed

theorem calculate_portfolio_allocation_values_witness:
  "calculate_portfolio_allocation Map.empty
        (map_of [(''ETH'', 10), (''USDC'', 0)])
        (map_of [(''ethereum'', 2), (''usd-coin'', 5)])
        \<lparr>api_selection_string = ''coingecko'', tokens_to_rebalance = [''ETH'', ''USDC''],
         target_percentages = [50, 50], variation_threshold = 5\<rparr>
      = Inr (Some ([(''ETH'', 20), (''USDC'', 0)], 20))
   \<and> distinct (map fst [(''ETH'', 20 :: real), (''USDC'', 0)])
   \<and> map_of [(''ETH'', 20 :: real), (''USDC'', 0)] ''USDC'' = Some (0 * 5)
   \<and> map_of [(''ETH'', 20 :: real), (''USDC'', 0)] ''ETH'' = Some (10 * 2)
   \<and> (20 :: real) = sum_list (map snd [(''ETH'', 20 :: real), (''USDC'', 0)])"
proof -
  let ?rb = "map_of [(''ETH'', 10 :: real), (''USDC'', 0)]"
  let ?feed = "map_of [(''ethereum'', 2 :: real), (''usd-coin'', 5)]"
  let ?params = "\<lparr>api_selection_string = ''coingecko'', tokens_to_rebalance = [''ETH'', ''USDC''],
         target_percentages = [50, 50], variation_threshold = 5\<rparr>"
  let ?tvs = "[(''ETH'', 20 :: real), (''USDC'', 0)]"
  note T = calculate_portfolio_allocation_values
    [of "Map.empty" ?rb ?feed ?params ?tvs 20]
  from T have run: "calculate_portfolio_allocation Map.empty ?rb ?feed ?params
      = Inr (Some (?tvs, 20))"
    by (rule conjunct2)
  from T [THEN conjunct1, rule_format, OF run]
  have d: "distinct (map fst ?tvs)"
    and m: "\<And>t. map_of ?tvs t =
              (if t \<in> set (tokens_to_rebalance ?params) then
                 (case ?rb t of
                    None \<Rightarrow> None
                  | Some b \<Rightarrow>
                      (case get_token_price_specs ?feed t of None \<Rightarrow> None | Some p \<Rightarrow> Some (b * p)))
               else None)"
    and s: "(20 :: real) = sum_list (map snd ?tvs)"
    by blast+
  from m [of "''USDC''"] have u: "map_of ?tvs ''USDC'' = Some (0 * 5)"
    by (simp add: get_token_price_specs_def)
  from m [of "''ETH''"] have e: "map_of ?tvs ''ETH'' = Some (10 * 2)"
    by (simp add: get_token_price_specs_def)
  from run d u e s show ?thesis by blast
qed

text \<open>
  Claim C3 as it was stated fails on that input: the result is not the token values with
  the first token alone.
\<close>

theorem calculate_portfolio_allocation_zero_balance_included:
  "calculate_portfolio_allocation Map.empty
        (map_of [(''ETH'', 10), (''USDC'', 0)])
        (map_of [(''ethereum'', 2), (''usd-coin'', 5)])
        \<lparr>api_selection_string = ''coingecko'', tokens_to_rebalance = [''ETH'', ''USDC''],
         target_percentages = [50, 50], variation_threshold = 5\<rparr>
      = Inr (Some ([(''ETH'', 20), (''USDC'', 0)], 20))
   \<and> calculate_portfolio_allocation Map.empty
        (map_of [(''ETH'', 10), (''USDC'', 0)])
        (map_of [(''ethereum'', 2), (''usd-coin'', 5)])
        \<lparr>api_selection_string = ''coingecko'', tokens_to_rebalance = [''ETH'', ''USDC''],
         target_percentages = [50, 50], variation_threshold = 5\<rparr>
      \<noteq> Inr (Some ([(''ETH'', 20)], 20))"
  by (simp add: calculate_portfolio_allocation_def get_token_balances_def dict_set_def
        get_token_price_specs_def generate_and_store_report_def Let_def)

section \<open>The rebalancing actions\<close>

lemma rebalancing_loop_Cons_Inr:
  assumes "rebalancing_loop price tvs total_value targets threshold ((i, t) # items) acc = Inr m"
  shows "i < length targets
     \<and> (case price t of
          None \<Rightarrow> rebalancing_loop price tvs total_value targets threshold items acc = Inr m
        | Some p \<Rightarrow>
            p \<noteq> 0 \<and> total_value \<noteq> 0 \<and> targets ! i / 100 * total_value \<noteq> 0
            \<and> rebalancing_loop price tvs total_value targets threshold items
                 (if \<bar>(dict_get tvs t 0 - targets ! i / 100 * total_value)
                        / (targets ! i / 100 * total_value) * 100\<bar> > threshold
                  then dict_set acc t (targets ! i / 100 * total_value / p) else acc) = Inr m)"
  using assms by (auto simp: Let_def split: if_splits option.splits)

lemma rebalancing_loop_untouched:
  "rebalancing_loop price tvs total_value targets threshold items acc = Inr m \<Longrightarrow>
   t \<notin> snd ` set items \<Longrightarrow> map_of m t = map_of acc t"
proof (induction items arbitrary: acc)
  case Nil
  then show ?case by simp
next
  case (Cons item items)
  obtain i k where item: "item = (i, k)" by (cases item)
  from Cons.prems(2) item have tk: "t \<noteq> k" and notin: "t \<notin> snd ` set items" by auto
  note step = rebalancing_loop_Cons_Inr [OF Cons.prems(1) [unfolded item]]
  show ?case
  proof (cases "price k")
    case None
    with step have "rebalancing_loop price tvs total_value targets threshold items acc = Inr m"
      by simp
    from Cons.IH [OF this notin] show ?thesis .
  next
    case (Some p)
    let ?acc = "if \<bar>(dict_get tvs k 0 - targets ! i / 100 * total_value)
                        / (targets ! i / 100 * total_value) * 100\<bar> > threshold
                  then dict_set acc k (targets ! i / 100 * total_value / p) else acc"
    from step Some have "rebalancing_loop price tvs total_value targets threshold items ?acc = Inr m"
      by simp
    from Cons.IH [OF this notin] have "map_of m t = map_of ?acc t" .
    with tk show ?thesis by (simp add: dict_set_map_of)
  qed
qed

lemma rebalancing_loop_records:
  "rebalancing_loop price tvs total_value targets threshold items acc = Inr m \<Longrightarrow>
   distinct (map snd items) \<Longrightarrow> (i, t) \<in> set items \<Longrightarrow>
   i < length targets
   \<and> (case price t of
        None \<Rightarrow> map_of m t = map_of acc t
      | Some p \<Rightarrow>
          p \<noteq> 0 \<and> targets ! i / 100 * total_value \<noteq> 0
          \<and> map_of m t =
              (if \<bar>(dict_get tvs t 0 - targets ! i / 100 * total_value)
                     / (targets ! i / 100 * total_value) * 100\<bar> > threshold
               then Some (targets ! i / 100 * total_value / p) else map_of acc t))"
proof (induction items arbitrary: acc)
  case Nil
  then show ?case by simp
next
  case (Cons item items)
  obtain j k where item: "item = (j, k)" by (cases item)
  from Cons.prems(2) item have dist: "distinct (map snd items)" and knotin: "k \<notin> snd ` set items"
    by auto
  note step = rebalancing_loop_Cons_Inr [OF Cons.prems(1) [unfolded item]]
  show ?case
  proof (cases "(i, t) = (j, k)")
    case True
    then have ij: "i = j" and tk: "t = k" by simp_all
    show ?thesis
    proof (cases "price k")
      case None
      with step have "rebalancing_loop price tvs total_value targets threshold items acc = Inr m"
        by simp
      from rebalancing_loop_untouched [OF this knotin] step None show ?thesis
        by (simp add: ij tk)
    next
      case (Some p)
      let ?acc = "if \<bar>(dict_get tvs k 0 - targets ! j / 100 * total_value)
                        / (targets ! j / 100 * total_value) * 100\<bar> > threshold
                  then dict_set acc k (targets ! j / 100 * total_value / p) else acc"
      from step Some have "rebalancing_loop price tvs total_value targets threshold items ?acc = Inr m"
        by simp
      from rebalancing_loop_untouched [OF this knotin] have "map_of m k = map_of ?acc k" .
      with step Some show ?thesis
        by (simp add: ij tk dict_set_map_of)
    qed
  next
    case False
    with Cons.prems(3) item have mem: "(i, t) \<in> set items" by auto
    then have "t \<in> snd ` set items" by force
    with knotin have tk: "t \<noteq> k" by blast
    show ?thesis
    proof (cases "price k")
      case None
      with step have "rebalancing_loop price tvs total_value targets threshold items acc = Inr m"
        by simp
      from Cons.IH [OF this dist mem] show ?thesis .
    next
      case (Some p)
      let ?acc = "if \<bar>(dict_get tvs k 0 - targets ! j / 100 * total_value)
                        / (targets ! j / 100 * total_value) * 100\<bar> > threshold
                  then dict_set acc k (targets ! j / 100 * total_value / p) else acc"
      from step Some have "rebalancing_loop price tvs total_value targets threshold items ?acc = Inr m"
        by simp
      from Cons.IH [OF this dist mem] tk show ?thesis
        by (simp add: dict_set_map_of split: option.splits)
    qed
  qed
qed

lemma calculate_rebalancing_actions_Some:
  assumes "loaded_token_values json_loads db = Inr tvs"
    and "total_portfolio_value db = PNum total_value"
    and "calculate_rebalancing_actions json_loads price db params = Inr (Some m)"
  shows "0 < total_value
     \<and> rebalancing_loop price tvs total_value (target_percentages params)
         (variation_threshold params) (enumerate 0 (tokens_to_rebalance params)) [] = Inr m"
  using assms
  by (auto simp: calculate_rebalancing_actions_def split: if_splits sum.splits)

lemma calculate_rebalancing_actions_token:
  assumes tv: "loaded_token_values json_loads db = Inr tvs"
    and tot: "total_portfolio_value db = PNum total_value"
    and res: "calculate_rebalancing_actions json_loads price db params = Inr (Some m)"
    and dist: "distinct (tokens_to_rebalance params)"
    and i: "i < length (tokens_to_rebalance params)"
  shows "i < length (target_percentages params)
     \<and> (case price (tokens_to_rebalance params ! i) of
          None \<Rightarrow> map_of m (tokens_to_rebalance params ! i) = None
        | Some p \<Rightarrow>
            p \<noteq> 0 \<and> target_percentages params ! i / 100 * total_value \<noteq> 0
            \<and> map_of m (tokens_to_rebalance params ! i) =
                (if \<bar>(dict_get tvs (tokens_to_rebalance params ! i) 0
                        - target_percentages params ! i / 100 * total_value)
                       / (target_percentages params ! i / 100 * total_value) * 100\<bar>
                      > variation_threshold params
                 then Some (target_percentages params ! i / 100 * total_value / p) else None))"
proof -
  from calculate_rebalancing_actions_Some [OF tv tot res]
  have loop: "rebalancing_loop price tvs total_value (target_percentages params)
         (variation_threshold params) (enumerate 0 (tokens_to_rebalance params)) [] = Inr m"
    by simp
  have d: "distinct (map snd (enumerate 0 (tokens_to_rebalance params)))"
    using dist by simp
  have mem: "(i, tokens_to_rebalance params ! i) \<in> set (enumerate 0 (tokens_to_rebalance params))"
    using i by (simp add: in_set_enumerate_eq)
  from rebalancing_loop_records [OF loop d mem] show ?thesis
    by (simp split: option.splits)
qed

lemma calculate_rebalancing_actions_other:
  assumes tv: "loaded_token_values json_loads db = Inr tvs"
    and tot: "total_portfolio_value db = PNum total_value"
    and res: "calculate_rebalancing_actions json_loads price db params = Inr (Some m)"
    and t: "t \<notin> set (tokens_to_rebalance params)"
  shows "map_of m t = None"
proof -
  from calculate_rebalancing_actions_Some [OF tv tot res]
  have loop: "rebalancing_loop price tvs total_value (target_percentages params)
         (variation_threshold params) (enumerate 0 (tokens_to_rebalance params)) [] = Inr m"
    by simp
  from t have "t \<notin> snd ` set (enumerate 0 (tokens_to_rebalance params))"
    by (metis list.set_map map_snd_enumerate)
  from rebalancing_loop_untouched [OF loop this] show ?thesis by simp
qed

lemma calculate_rebalancing_actions_example:
  assumes "json_loads s = Some [(''A'', 60), (''B'', 40)]"
    and "price ''A'' = Some pa" and "pa \<noteq> 0" and "price ''B'' = Some pb" and "pb \<noteq> 0"
  shows "calculate_rebalancing_actions json_loads price
           [''token_values'' \<mapsto> PStr s, ''total_portfolio_value'' \<mapsto> PNum 100]
           \<lparr>api_selection_string = c, tokens_to_rebalance = [''A'', ''B''],
            target_percentages = [50, 50], variation_threshold = 5\<rparr>
         = Inr (Some [(''A'', 50 / pa), (''B'', 50 / pb)])"
    and "calculate_rebalancing_actions json_loads price
           [''token_values'' \<mapsto> PStr s, ''total_portfolio_value'' \<mapsto> PNum 100]
           \<lparr>api_selection_string = c, tokens_to_rebalance = [''A'', ''B''],
            target_percentages = [50, 50], variation_threshold = 25\<rparr>
         = Inr (Some [])"
  using assms
  by (simp_all add: calculate_rebalancing_actions_def loaded_token_values_def
      token_values_def total_portfolio_value_def db_get_def dict_get_def dict_set_def
      enumerate_eq_zip upt_rec)

text \<open>
  Claim C6. When \<^verbatim>\<open>calculate_rebalancing_actions\<close> returns a dictionary for distinct
  tokens to rebalance, then for every token with a price: the target value is the target
  percentage over 100 times the total value, the deviation is the current value minus the
  target value, over the target value, times 100, and the dictionary holds the target value
  over the price for the token exactly when the absolute deviation exceeds the variation
  threshold; a token without a price and a token that is not tracked are not in the
  dictionary. On the token values 60 and 40 of A and B, the total 100 and the targets 50
  and 50, with prices that are not zero, both tokens are in the dictionary at the threshold
  5 and the dictionary is empty at the threshold 25.
\<close>

theorem calculate_rebalancing_actions_records:
  "(loaded_token_values json_loads db = Inr tvs
    \<and> total_portfolio_value db = PNum total_value
    \<and> calculate_rebalancing_actions json_loads price db params = Inr (Some m)
    \<and> distinct (tokens_to_rebalance params)
    \<longrightarrow> (\<forall>i < length (tokens_to_rebalance params).
           let t = tokens_to_rebalance params ! i;
               current_value = dict_get tvs t 0;
               target_value = target_percentages params ! i / 100 * total_value;
               deviation = (current_value - target_value) / target_value * 100
           in i < length (target_percentages params)
              \<and> (case price t of
                   None \<Rightarrow> map_of m t = None
                 | Some p \<Rightarrow>
                     p \<noteq> 0 \<and> target_value \<noteq> 0
                     \<and> map_of m t =
                         (if \<bar>deviation\<bar> > variation_threshold params
                          then Some (target_value / p) else None)))
        \<and> (\<forall>t. t \<notin> set (tokens_to_rebalance params) \<longrightarrow> map_of m t = None))
   \<and> (json_loads s = Some [(''A'', 60), (''B'', 40)]
      \<and> price ''A'' = Some pa \<and> pa \<noteq> 0 \<and> price ''B'' = Some pb \<and> pb \<noteq> 0
      \<longrightarrow> calculate_rebalancing_actions json_loads price
             [''token_values'' \<mapsto> PStr s, ''total_portfolio_value'' \<mapsto> PNum 100]
             \<lparr>api_selection_string = c, tokens_to_rebalance = [''A'', ''B''],
              target_percentages = [50, 50], variation_threshold = 5\<rparr>
           = Inr (Some [(''A'', 50 / pa), (''B'', 50 / pb)])
        \<and> calculate_rebalancing_actions json_loads price
             [''token_values'' \<mapsto> PStr s, ''total_portfolio_value'' \<mapsto> PNum 100]
             \<lparr>api_selection_string = c, tokens_to_rebalance = [''A'', ''B''],
              target_percentages = [50, 50], variation_threshold = 25\<rparr>
           = Inr (Some []))"
proof (intro conjI impI allI)
  fix i
  assume h: "loaded_token_values json_loads db = Inr tvs
    \<and> total_portfolio_value db = PNum total_value
    \<and> calculate_rebalancing_actions json_loads price db params = Inr (Some m)
    \<and> distinct (tokens_to_rebalance params)"
    and i: "i < length (tokens_to_rebalance params)"
  from h have tv: "loaded_token_values json_loads db = Inr tvs"
    and tot: "total_portfolio_value db = PNum total_value"
    and res: "calculate_rebalancing_actions json_loads price db params = Inr (Some m)"
    and dist: "distinct (tokens_to_rebalance params)"
    by simp_all
  show "let t = tokens_to_rebalance params ! i;
               current_value = dict_get tvs t 0;
               target_value = target_percentages params ! i / 100 * total_value;
               deviation = (current_value - target_value) / target_value * 100
           in i < length (target_percentages params)
              \<and> (case price t of
                   None \<Rightarrow> map_of m t = None
                 | Some p \<Rightarrow>
                     p \<noteq> 0 \<and> target_value \<noteq> 0
                     \<and> map_of m t =
                         (if \<bar>deviation\<bar> > variation_threshold params
                          then Some (target_value / p) else None))"
    unfolding Let_def
    by (rule calculate_rebalancing_actions_token [OF tv tot res dist i])
next
  fix t
  assume h: "loaded_token_values json_loads db = Inr tvs
    \<and> total_portfolio_value db = PNum total_value
    \<and> calculate_rebalancing_actions json_loads price db params = Inr (Some m)
    \<and> distinct (tokens_to_rebalance params)"
    and t: "t \<notin> set (tokens_to_rebalance params)"
  from h have tv: "loaded_token_values json_loads db = Inr tvs"
    and tot: "total_portfolio_value db = PNum total_value"
    and res: "calculate_rebalancing_actions json_loads price db params = Inr (Some m)"
    by simp_all
  from calculate_rebalancing_actions_other [OF tv tot res t]
  show "map_of m t = None" .
next
  assume h: "json_loads s = Some [(''A'', 60), (''B'', 40)]
      \<and> price ''A'' = Some pa \<and> pa \<noteq> 0 \<and> price ''B'' = Some pb \<and> pb \<noteq> 0"
  then show "calculate_rebalancing_actions json_loads price
             [''token_values'' \<mapsto> PStr s, ''total_portfolio_value'' \<mapsto> PNum 100]
             \<lparr>api_selection_string = c, tokens_to_rebalance = [''A'', ''B''],
              target_percentages = [50, 50], variation_threshold = 5\<rparr>
           = Inr (Some [(''A'', 50 / pa), (''B'', 50 / pb)])"
    by (simp add: calculate_rebalancing_actions_example(1))
next
  assume h: "json_loads s = Some [(''A'', 60), (''B'', 40)]
      \<and> price ''A'' = Some pa \<and> pa \<noteq> 0 \<and> price ''B'' = Some pb \<and> pb \<noteq> 0"
  then show "calculate_rebalancing_actions json_loads price
             [''token_values'' \<mapsto> PStr s, ''total_portfolio_value'' \<mapsto> PNum 100]
             \<lparr>api_selection_string = c, tokens_to_rebalance = [''A'', ''B''],
              target_percentages = [50, 50], variation_threshold = 25\<rparr>
           = Inr (Some [])"
    by (simp add: calculate_rebalancing_actions_example(2))
qed

theorem calculate_rebalancing_actions_records_witness:
  "calculate_rebalancing_actions
       (map_of [(''{\"A\": 60.0, \"B\": 40.0}'', [(''A'', 60), (''B'', 40)])])
       (map_of [(''A'', 2), (''B'', 1)])
       [''token_values'' \<mapsto> PStr ''{\"A\": 60.0, \"B\": 40.0}'', ''total_portfolio_value'' \<mapsto> PNum 100]
       \<lparr>api_selection_string = ''coingecko'', tokens_to_rebalance = [''A'', ''B''],
        target_percentages = [50, 50], variation_threshold = 5\<rparr>
     = Inr (Some [(''A'', 25), (''B'', 50)])
   \<and> calculate_rebalancing_actions
       (map_of [(''{\"A\": 60.0, \"B\": 40.0}'', [(''A'', 60), (''B'', 40)])])
       (map_of [(''A'', 2), (''B'', 1)])
       [''token_values'' \<mapsto> PStr ''{\"A\": 60.0, \"B\": 40.0}'', ''total_portfolio_value'' \<mapsto> PNum 100]
       \<lparr>api_selection_string = ''coingecko'', tokens_to_rebalance = [''A'', ''B''],
        target_percentages = [50, 50], variation_threshold = 25\<rparr>
     = Inr (Some [])
   \<and> map_of [(''A'', 25 :: real), (''B'', 50)] ''A'' = Some (50 / 100 * 100 / 2)
   \<and> map_of [(''A'', 25 :: real), (''B'', 50)] ''B'' = Some (50 / 100 * 100 / 1)
   \<and> \<bar>(60 - 50 / 100 * 100) / (50 / 100 * 100) * 100\<bar> > (5 :: real)
   \<and> \<bar>(40 - 50 / 100 * 100) / (50 / 100 * 100) * 100\<bar> > (5 :: real)"
proof -
  let ?jl = "map_of [(''{\"A\": 60.0, \"B\": 40.0}'', [(''A'', 60 :: real), (''B'', 40)])]"
  let ?pr = "map_of [(''A'', 2 :: real), (''B'', 1)]"
  let ?db = "[''token_values'' \<mapsto> PStr ''{\"A\": 60.0, \"B\": 40.0}'',
              ''total_portfolio_value'' \<mapsto> PNum 100] :: SynchronizedData"
  let ?p5 = "\<lparr>api_selection_string = ''coingecko'', tokens_to_rebalance = [''A'', ''B''],
        target_percentages = [50, 50], variation_threshold = 5\<rparr>"
  let ?p25 = "\<lparr>api_selection_string = ''coingecko'', tokens_to_rebalance = [''A'', ''B''],
        target_percentages = [50, 50], variation_threshold = 25\<rparr>"
  let ?tvs = "[(''A'', 60 :: real), (''B'', 40)]"
  let ?m = "[(''A'', 25 :: real), (''B'', 50)]"
  note T = calculate_rebalancing_actions_records
    [where json_loads = ?jl and price = ?pr and db = ?db and tvs = ?tvs and total_value = 100
       and params = ?p5 and m = ?m and s = "''{\"A\": 60.0, \"B\": 40.0}''" and pa = 2 and pb = 1
       and c = "''coingecko''"]
  have ex: "?jl ''{\"A\": 60.0, \"B\": 40.0}'' = Some [(''A'', 60), (''B'', 40)]
      \<and> ?pr ''A'' = Some 2 \<and> (2 :: real) \<noteq> 0 \<and> ?pr ''B'' = Some 1 \<and> (1 :: real) \<noteq> 0"
    by simp
  from T [THEN conjunct2, rule_format, OF ex]
  have r5: "calculate_rebalancing_actions ?jl ?pr ?db ?p5 = Inr (Some ?m)"
    and r25: "calculate_rebalancing_actions ?jl ?pr ?db ?p25 = Inr (Some [])"
    by simp_all
  have h: "loaded_token_values ?jl ?db = Inr ?tvs
      \<and> total_portfolio_value ?db = PNum 100
      \<and> calculate_rebalancing_actions ?jl ?pr ?db ?p5 = Inr (Some ?m)
      \<and> distinct (tokens_to_rebalance ?p5)"
    using r5
    by (simp add: loaded_token_values_def token_values_def total_portfolio_value_def db_get_def)
  note each = T [THEN conjunct1, rule_format, OF h, THEN conjunct1, rule_format]
  from each [of 0] have a: "map_of ?m ''A'' = Some (50 / 100 * 100 / 2)"
    and da: "\<bar>(60 - 50 / 100 * 100) / (50 / 100 * 100) * 100\<bar> > (5 :: real)"
    by (simp_all add: Let_def dict_get_def)
  from each [of 1] have b: "map_of ?m ''B'' = Some (50 / 100 * 100 / 1)"
    and db: "\<bar>(40 - 50 / 100 * 100) / (50 / 100 * 100) * 100\<bar> > (5 :: real)"
    by (simp_all add: Let_def dict_get_def)
  from r5 r25 a b da db show ?thesis by blast
qed

end
